theory Spec2Isabelle
  imports Main "HOL-Library.Word" "HOL-Library.Log_Nat"
begin

section \<open>Go values seen by the payload functions\<close>

text \<open>
  The handler file \<^verbatim>\<open>core/handler/convert_fields_custom.go\<close> moves Go values of
  static type \<^verbatim>\<open>interface{}\<close> between the JavaScript runtime and the handler. The
  datatype below lists the dynamic types the file distinguishes: every case of the type
  switch in \<^verbatim>\<open>Encode\<close>, the map type asserted in \<^verbatim>\<open>Decode\<close> and \<^verbatim>\<open>Convert\<close>, slices
  (the only values of \<^verbatim>\<open>reflect.Slice\<close> kind), and the dynamic types that fall into
  the \<^verbatim>\<open>default\<close> branches (nil, bool, string, uint, anything else).

  A floating-point number is \<open>Finite m e\<close> (the number \<open>m * 2 ^ e\<close>), an infinity with
  its sign, or NaN. Fixed-width integers are words; \<^verbatim>\<open>int\<close> and \<^verbatim>\<open>uint\<close> are taken
  at 64 bits. A value of type \<^verbatim>\<open>map[string]interface{}\<close> is \<open>None\<close> for the nil map and
  an association list otherwise (the file never looks inside a map).
\<close>

datatype gofloat = Finite int int | Infinity bool | NaN

datatype goval =
    GNil
  | GBool bool
  | GString string
  | GByte "8 word"
  | GInt "64 word"
  | GInt8 "8 word"
  | GInt16 "16 word"
  | GUint16 "16 word"
  | GInt32 "32 word"
  | GUint32 "32 word"
  | GInt64 "64 word"
  | GUint64 "64 word"
  | GUint "64 word"
  | GFloat32 gofloat
  | GFloat64 gofloat
  | GSlice "goval list"
  | GMap "(string \<times> goval) list option"
  | GOther string

type_synonym fields = "(string \<times> goval) list option"

subsection \<open>Errors\<close>

text \<open>
  Modelled from the spec: \<^verbatim>\<open>errors.NewErrInvalidArgument\<close> lives in the package
  \<^verbatim>\<open>utils/errors\<close>, which is not among the source files. The spec's error kinds carry
  the offending transform's name and a reason; the error value built here carries the
  two strings the handler passes. \<open>ErrExternal\<close> stands for every other error value
  (a timeout or a script failure reported by the runtime, an export failure).
\<close>

datatype error = ErrInvalidArgument string string | ErrExternal string

definition NewErrInvalidArgument :: "string \<Rightarrow> string \<Rightarrow> error" where
  "NewErrInvalidArgument argument reason = ErrInvalidArgument argument reason"

subsection \<open>The script runtime\<close>

text \<open>
  The value handed back by the runtime is an \<^verbatim>\<open>otto.Value\<close>. The handler observes it
  through four methods only, so the model is the record of what they answer.
\<close>

record Value =
  IsObject :: bool
  IsBoolean :: bool
  Export :: "goval \<times> error option"
  ToBoolean :: "bool \<times> error option"

text \<open>One invocation of the runtime, with the five arguments of \<^verbatim>\<open>functions.RunCode\<close>.\<close>

record 'l call =
  call_name :: string
  call_code :: string
  call_env :: "(string \<times> goval) list"
  call_timeout :: int
  call_logger :: 'l

text \<open>
  What the runtime answers to a call, given the calls made before it. The handler is
  verified for every such answer function.
\<close>

type_synonym 'l runtime = "'l call list \<Rightarrow> 'l call \<Rightarrow> Value \<times> error option"

text \<open>
  Modelled from the spec: \<^verbatim>\<open>functions.RunCode\<close> lives in the package
  \<^verbatim>\<open>core/handler/functions\<close>, which is not among the source files. Per the spec it
  accepts a name, a code string, a binding environment, a timeout and a logging sink
  and returns a tagged value or an error. Running a script is an effect: the call is
  appended to the trace of invocations, which is threaded through the handler.
\<close>

definition RunCode ::
  "'l runtime \<Rightarrow> string \<Rightarrow> string \<Rightarrow> (string \<times> goval) list \<Rightarrow> int \<Rightarrow> 'l \<Rightarrow> 'l call list
    \<Rightarrow> (Value \<times> error option) \<times> 'l call list" where
  "RunCode rt name code env t logger tr =
     (let c = \<lparr>call_name = name, call_code = code, call_env = env, call_timeout = t,
                call_logger = logger\<rparr>
      in (rt tr c, tr @ [c]))"

section \<open>Uplink functions\<close>

text \<open>
  The receiver type of the uplink methods. The file has two methods called
  \<^verbatim>\<open>Decode\<close> on it: the stage with two results, kept here as \<open>Decode\<close>, and the
  pipeline with three results, here \<open>Decode_pipeline\<close>.
\<close>

record 'l UplinkFunctions =
  Decoder :: string
  Converter :: string
  Validator :: string
  Logger :: 'l

text \<open>
  \<^verbatim>\<open>var timeOut = 100 * time.Millisecond\<close>. A \<^verbatim>\<open>time.Duration\<close> counts nanoseconds,
  and \<^verbatim>\<open>time.Millisecond\<close> is 1000000 of them. No statement of the file assigns to
  the variable.
\<close>

definition Millisecond :: int where
  "Millisecond = 1000000"

definition timeOut :: int where
  "timeOut = 100 * Millisecond"

text \<open>The raw string literals of the three \<^verbatim>\<open>fmt.Sprintf\<close> calls hold newlines and tabs.\<close>

definition NL :: char where
  "NL = CHR 0x0A"

definition TAB :: char where
  "TAB = CHR 0x09"

definition Decode_env :: "8 word list \<Rightarrow> 8 word \<Rightarrow> (string \<times> goval) list" where
  "Decode_env payload port = [(''payload'', GSlice (map GByte payload)), (''port'', GByte port)]"

definition Decode_code :: "'l UplinkFunctions \<Rightarrow> string" where
  "Decode_code f =
     [NL, TAB, TAB] @ Decoder f @ '';'' @ [NL, TAB, TAB] @ ''Decoder(payload.slice(0), port);''
       @ [NL, TAB]"

definition Decode ::
  "'l runtime \<Rightarrow> 'l UplinkFunctions \<Rightarrow> 8 word list \<Rightarrow> 8 word \<Rightarrow> 'l call list
    \<Rightarrow> (fields \<times> error option) \<times> 'l call list" where
  "Decode rt f payload port tr =
     (if Decoder f = [] then ((None, None), tr)
      else
        let env = Decode_env payload port;
            code = Decode_code f;
            ((value, err), tr') = RunCode rt ''Decoder'' code env timeOut (Logger f) tr
        in if err \<noteq> None then ((None, err), tr')
           else if \<not> IsObject value then
             ((None, Some (NewErrInvalidArgument ''Decoder'' ''does not return an object'')), tr')
           else
             let (v, _) = Export value
             in (case v of
                   GMap m \<Rightarrow> ((m, None), tr')
                 | _ \<Rightarrow>
                   ((None, Some (NewErrInvalidArgument ''Decoder'' ''does not return an object'')),
                    tr')))"

definition Convert_env :: "fields \<Rightarrow> 8 word \<Rightarrow> (string \<times> goval) list" where
  "Convert_env flds port = [(''fields'', GMap flds), (''port'', GByte port)]"

definition Convert_code :: "'l UplinkFunctions \<Rightarrow> string" where
  "Convert_code f =
     [NL, TAB, TAB] @ Converter f @ '';'' @ [NL, TAB, TAB] @ ''Converter(fields, port)''
       @ [NL, TAB]"

definition Convert ::
  "'l runtime \<Rightarrow> 'l UplinkFunctions \<Rightarrow> fields \<Rightarrow> 8 word \<Rightarrow> 'l call list
    \<Rightarrow> (fields \<times> error option) \<times> 'l call list" where
  "Convert rt f flds port tr =
     (if Converter f = [] then ((flds, None), tr)
      else
        let env = Convert_env flds port;
            code = Convert_code f;
            ((value, err), tr') = RunCode rt ''Converter'' code env timeOut (Logger f) tr
        in if err \<noteq> None then ((None, err), tr')
           else if \<not> IsObject value then
             ((None, Some (NewErrInvalidArgument ''Converter'' ''does not return an object'')), tr')
           else
             let (v, _) = Export value
             in (case v of
                   GMap m \<Rightarrow> ((m, None), tr')
                 | _ \<Rightarrow>
                   ((None, Some (NewErrInvalidArgument ''Converter'' ''does not return an object'')),
                    tr')))"

definition Validate_env :: "fields \<Rightarrow> 8 word \<Rightarrow> (string \<times> goval) list" where
  "Validate_env flds port = [(''fields'', GMap flds), (''port'', GByte port)]"

definition Validate_code :: "'l UplinkFunctions \<Rightarrow> string" where
  "Validate_code f =
     [NL, TAB, TAB] @ Validator f @ '';'' @ [NL, TAB, TAB] @ ''Validator(fields, port)''
       @ [NL, TAB]"

definition Validate ::
  "'l runtime \<Rightarrow> 'l UplinkFunctions \<Rightarrow> fields \<Rightarrow> 8 word \<Rightarrow> 'l call list
    \<Rightarrow> (bool \<times> error option) \<times> 'l call list" where
  "Validate rt f flds port tr =
     (if Validator f = [] then ((True, None), tr)
      else
        let env = Validate_env flds port;
            code = Validate_code f;
            ((value, err), tr') = RunCode rt ''Validator'' code env timeOut (Logger f) tr
        in if err \<noteq> None then ((False, err), tr')
           else if \<not> IsBoolean value then
             ((False, Some (NewErrInvalidArgument ''Validator'' ''does not return a boolean'')), tr')
           else (ToBoolean value, tr'))"

definition Decode_pipeline ::
  "'l runtime \<Rightarrow> 'l UplinkFunctions \<Rightarrow> 8 word list \<Rightarrow> 8 word \<Rightarrow> 'l call list
    \<Rightarrow> (fields \<times> bool \<times> error option) \<times> 'l call list" where
  "Decode_pipeline rt f payload port tr =
     (let ((decoded, err), tr1) = Decode rt f payload port tr
      in if err \<noteq> None then ((None, False, err), tr1)
         else
           let ((converted, err), tr2) = Convert rt f decoded port tr1
           in if err \<noteq> None then ((None, False, err), tr2)
              else
                let ((valid, err), tr3) = Validate rt f converted port tr2
                in ((converted, valid, err), tr3))"

section \<open>Downlink functions\<close>

record 'l DownlinkFunctions =
  Encoder :: string
  Logger :: 'l

subsection \<open>Go's numeric conversions\<close>

text \<open>
  \<^verbatim>\<open>int64(t)\<close> for a floating-point \<open>t\<close> discards the fraction (truncation towards
  zero). When the truncated number is no \<^verbatim>\<open>int64\<close>, or \<open>t\<close> is an infinity or NaN, the
  Go language leaves the result to the implementation: it is the parameter \<open>ovf\<close>.
\<close>

definition float_trunc :: "gofloat \<Rightarrow> int option" where
  "float_trunc t =
     (case t of
        Finite m e \<Rightarrow> Some (if 0 \<le> e then m * 2 ^ nat e else sgn m * (\<bar>m\<bar> div 2 ^ nat (- e)))
      | _ \<Rightarrow> None)"

definition float_to_int64 :: "(gofloat \<Rightarrow> 64 word) \<Rightarrow> gofloat \<Rightarrow> 64 word" where
  "float_to_int64 ovf t =
     (case float_trunc t of
        Some v \<Rightarrow> if - (2 ^ 63) \<le> v \<and> v < 2 ^ 63 then word_of_int v else ovf t
      | None \<Rightarrow> ovf t)"

text \<open>
  \<^verbatim>\<open>float32(n)\<close> and \<^verbatim>\<open>float64(n)\<close> for an \<^verbatim>\<open>int64\<close> round to the nearest number with
  \<open>p\<close> significant bits (24 and 53), ties to the even one.
\<close>

definition int64_to_float :: "nat \<Rightarrow> 64 word \<Rightarrow> gofloat" where
  "int64_to_float p n =
     (let v = sint n; a = \<bar>v\<bar>; k = bitlen a
      in if k \<le> int p then Finite v 0
         else
           let sh = nat (k - int p);
               q = a div 2 ^ sh;
               r = a mod 2 ^ sh;
               q' = (if 2 ^ sh < 2 * r \<or> (2 * r = 2 ^ sh \<and> odd q) then q + 1 else q)
           in Finite (sgn v * q') (int sh))"

text \<open>The comparison \<^verbatim>\<open>==\<close> of two floating-point numbers; NaN equals nothing.\<close>

definition float_eq :: "gofloat \<Rightarrow> gofloat \<Rightarrow> bool" where
  "float_eq a b =
     (case (a, b) of
        (Finite m1 e1, Finite m2 e2) \<Rightarrow>
          (let e = min e1 e2 in m1 * 2 ^ nat (e1 - e) = m2 * 2 ^ nat (e2 - e))
      | (Infinity s1, Infinity s2) \<Rightarrow> s1 = s2
      | _ \<Rightarrow> False)"

subsection \<open>Encode\<close>

text \<open>The type switch of the loop body: the element as an \<^verbatim>\<open>int64\<close>, or the error returned.\<close>

definition el_int64 :: "(gofloat \<Rightarrow> 64 word) \<Rightarrow> goval \<Rightarrow> error + 64 word" where
  "el_int64 ovf el =
     (case el of
        GByte t \<Rightarrow> Inr (ucast t)
      | GInt t \<Rightarrow> Inr t
      | GInt8 t \<Rightarrow> Inr (scast t)
      | GInt16 t \<Rightarrow> Inr (scast t)
      | GUint16 t \<Rightarrow> Inr (ucast t)
      | GInt32 t \<Rightarrow> Inr (scast t)
      | GUint32 t \<Rightarrow> Inr (ucast t)
      | GInt64 t \<Rightarrow> Inr t
      | GUint64 t \<Rightarrow> Inr t
      | GFloat32 t \<Rightarrow>
          (let n = float_to_int64 ovf t
           in if \<not> float_eq (int64_to_float 24 n) t then
                Inl (NewErrInvalidArgument ''Encoder'' ''should return an Array of integer numbers'')
              else Inr n)
      | GFloat64 t \<Rightarrow>
          (let n = float_to_int64 ovf t
           in if \<not> float_eq (int64_to_float 53 n) t then
                Inl (NewErrInvalidArgument ''Encoder'' ''should return an Array of integer numbers'')
              else Inr n)
      | _ \<Rightarrow> Inl (NewErrInvalidArgument ''Encoder'' ''should return an Array of integer numbers''))"

text \<open>
  The \<^verbatim>\<open>for\<close> loop over the indices of the slice \<open>s\<close>, with the result slice \<open>res\<close>
  updated in place. The bound \<^verbatim>\<open>l\<close> of the source is \<open>length s\<close> throughout.
\<close>

function Encode_loop ::
  "(gofloat \<Rightarrow> 64 word) \<Rightarrow> goval list \<Rightarrow> nat \<Rightarrow> 8 word list \<Rightarrow> 8 word list option \<times> error option"
  where
  "Encode_loop ovf s i res =
     (if i < length s then
        (case el_int64 ovf (s ! i) of
           Inl e \<Rightarrow> (None, Some e)
         | Inr n \<Rightarrow>
             if sint n < 0 \<or> 255 < sint n then
               (None,
                Some (NewErrInvalidArgument ''Encoder Output''
                  ''Numbers in Array should be between 0 and 255''))
             else Encode_loop ovf s (Suc i) (res[i := ucast n]))
      else (Some res, None))"
  by pat_completeness auto
termination
  by (relation "measure (\<lambda>(ovf, s, i, res). length s - i)") auto

declare Encode_loop.simps [simp del]

text \<open>
  A call either returns its results or panics: \<^verbatim>\<open>reflect.TypeOf(v).Kind()\<close> panics
  when \<open>v\<close> is the nil interface, for which \<^verbatim>\<open>reflect.TypeOf\<close> gives a nil type.
\<close>

datatype 'a outcome = Returns 'a | Panics

definition Encode_env :: "fields \<Rightarrow> 8 word \<Rightarrow> (string \<times> goval) list" where
  "Encode_env payload port = [(''payload'', GMap payload), (''port'', GByte port)]"

definition Encode_code :: "'l DownlinkFunctions \<Rightarrow> string" where
  "Encode_code f =
     [NL, TAB, TAB] @ Encoder f @ '';'' @ [NL, TAB, TAB] @ ''Encoder(payload, port)''
       @ [NL, TAB]"

definition Encode ::
  "'l runtime \<Rightarrow> (gofloat \<Rightarrow> 64 word) \<Rightarrow> 'l DownlinkFunctions \<Rightarrow> fields \<Rightarrow> 8 word \<Rightarrow> 'l call list
    \<Rightarrow> (8 word list option \<times> error option) outcome \<times> 'l call list" where
  "Encode rt ovf f payload port tr =
     (if Encoder f = [] then
        (Returns (None,
           Some (NewErrInvalidArgument ''Downlink Payload''
             ''fields supplied, but no Encoder function set'')), tr)
      else
        let env = Encode_env payload port;
            code = Encode_code f;
            ((value, err), tr') = RunCode rt ''Encoder'' code env timeOut (Logger f) tr
        in if err \<noteq> None then (Returns (None, err), tr')
           else if \<not> IsObject value then
             (Returns (None, Some (NewErrInvalidArgument ''Encoder'' ''does not return an object'')),
              tr')
           else
             let (v, err) = Export value
             in if err \<noteq> None then (Returns (None, err), tr')
                else
                  (case v of
                     GNil \<Rightarrow> (Panics, tr')
                   | GSlice s \<Rightarrow> (Returns (Encode_loop ovf s 0 (replicate (length s) 0)), tr')
                   | _ \<Rightarrow>
                     (Returns (None,
                        Some (NewErrInvalidArgument ''Encoder'' ''does not return an Array'')),
                      tr')))"

definition Encode_pipeline ::
  "'l runtime \<Rightarrow> (gofloat \<Rightarrow> 64 word) \<Rightarrow> 'l DownlinkFunctions \<Rightarrow> fields \<Rightarrow> 8 word \<Rightarrow> 'l call list
    \<Rightarrow> (8 word list option \<times> bool \<times> error option) outcome \<times> 'l call list" where
  "Encode_pipeline rt ovf f payload port tr =
     (case Encode rt ovf f payload port tr of
        (Panics, tr') \<Rightarrow> (Panics, tr')
      | (Returns (encoded, err), tr') \<Rightarrow>
          if err \<noteq> None then (Returns (None, False, err), tr')
          else (Returns (encoded, True, None), tr'))"

section \<open>Notions used to state the properties\<close>

subsection \<open>Error kinds\<close>

text \<open>
  The error kinds of the specification are all built by \<open>NewErrInvalidArgument\<close> in the
  handler; they differ in the argument and the reason.
\<close>

definition InvalidReturnType :: "string \<Rightarrow> string \<Rightarrow> error" where
  "InvalidReturnType name reason = NewErrInvalidArgument name reason"

definition OutOfRange :: error where
  "OutOfRange =
     NewErrInvalidArgument ''Encoder Output'' ''Numbers in Array should be between 0 and 255''"

definition NotIntegers :: error where
  "NotIntegers = InvalidReturnType ''Encoder'' ''should return an Array of integer numbers''"

definition MissingEncoder :: error where
  "MissingEncoder =
     NewErrInvalidArgument ''Downlink Payload'' ''fields supplied, but no Encoder function set''"

subsection \<open>Values of the runtime\<close>

text \<open>A value that is tagged as an object and exports to a string-keyed map.\<close>

definition exports_field_map :: "Value \<Rightarrow> bool" where
  "exports_field_map value =
     (IsObject value \<and> (case fst (Export value) of GMap m \<Rightarrow> True | _ \<Rightarrow> False))"

subsection \<open>Numbers among the elements of an array\<close>

text \<open>A floating-point number with a fractional part, and the value of a whole one.\<close>

definition fractional :: "gofloat \<Rightarrow> bool" where
  "fractional t = (case t of Finite m e \<Rightarrow> e < 0 \<and> m mod 2 ^ nat (- e) \<noteq> 0 | _ \<Rightarrow> False)"

definition float_whole :: "gofloat \<Rightarrow> int option" where
  "float_whole t =
     (case t of
        Finite m e \<Rightarrow>
          if 0 \<le> e then Some (m * 2 ^ nat e)
          else if m mod 2 ^ nat (- e) = 0 then Some (m div 2 ^ nat (- e))
          else None
      | _ \<Rightarrow> None)"

definition has_fraction :: "goval \<Rightarrow> bool" where
  "has_fraction el =
     (case el of GFloat32 t \<Rightarrow> fractional t | GFloat64 t \<Rightarrow> fractional t | _ \<Rightarrow> False)"

text \<open>The number an element stands for, when it is a whole number of any numeric type.\<close>

definition whole_number :: "goval \<Rightarrow> int option" where
  "whole_number el =
     (case el of
        GByte t \<Rightarrow> Some (uint t)
      | GInt t \<Rightarrow> Some (sint t)
      | GInt8 t \<Rightarrow> Some (sint t)
      | GInt16 t \<Rightarrow> Some (sint t)
      | GUint16 t \<Rightarrow> Some (uint t)
      | GInt32 t \<Rightarrow> Some (sint t)
      | GUint32 t \<Rightarrow> Some (uint t)
      | GInt64 t \<Rightarrow> Some (sint t)
      | GUint64 t \<Rightarrow> Some (uint t)
      | GUint t \<Rightarrow> Some (uint t)
      | GFloat32 t \<Rightarrow> float_whole t
      | GFloat64 t \<Rightarrow> float_whole t
      | _ \<Rightarrow> None)"

definition is_uint :: "goval \<Rightarrow> bool" where
  "is_uint el = (case el of GUint t \<Rightarrow> True | _ \<Rightarrow> False)"

definition is_float :: "goval \<Rightarrow> bool" where
  "is_float el = (case el of GFloat32 t \<Rightarrow> True | GFloat64 t \<Rightarrow> True | _ \<Rightarrow> False)"

text \<open>
  The finite numbers of a binary floating-point format with \<open>p\<close> significant bits and
  exponents of the last bit between \<open>emin\<close> and \<open>emax\<close>: \<^verbatim>\<open>float32\<close> has 24 bits and
  exponents from -149 to 104, \<^verbatim>\<open>float64\<close> 53 bits and exponents from -1074 to 971.
\<close>

definition float_bits :: "nat \<Rightarrow> int \<Rightarrow> int \<Rightarrow> gofloat \<Rightarrow> bool" where
  "float_bits p emin emax t =
     (case t of Finite m e \<Rightarrow> \<bar>m\<bar> < 2 ^ p \<and> emin \<le> e \<and> e \<le> emax | _ \<Rightarrow> True)"

definition representable :: "goval \<Rightarrow> bool" where
  "representable el =
     (case el of
        GFloat32 t \<Rightarrow> float_bits 24 (- 149) 104 t
      | GFloat64 t \<Rightarrow> float_bits 53 (- 1074) 971 t
      | _ \<Rightarrow> True)"

text \<open>An element the loop turns into a byte: a whole number from 0 to 255, not a \<^verbatim>\<open>uint\<close>.\<close>

definition byte_ok :: "goval \<Rightarrow> bool" where
  "byte_ok el =
     (\<not> is_uint el \<and> (case whole_number el of Some v \<Rightarrow> 0 \<le> v \<and> v \<le> 255 | None \<Rightarrow> False))"

text \<open>The byte with the value of a whole number.\<close>

definition byte_of :: "goval \<Rightarrow> 8 word" where
  "byte_of el = (case whole_number el of Some v \<Rightarrow> word_of_int v | None \<Rightarrow> 0)"

text \<open>One round of the loop body: the error returned, or the byte stored.\<close>

definition el_step :: "(gofloat \<Rightarrow> 64 word) \<Rightarrow> goval \<Rightarrow> error + 8 word" where
  "el_step ovf el =
     (case el_int64 ovf el of
        Inl e \<Rightarrow> Inl e
      | Inr n \<Rightarrow> if sint n < 0 \<or> 255 < sint n then Inl OutOfRange else Inr (ucast n))"

subsection \<open>Example runs\<close>

text \<open>
  Values as the runtime hands them back for a JavaScript object, boolean, string, number
  and array, and a runtime that answers by the name of the function it is asked to run.
\<close>

definition object_value :: "(string \<times> goval) list \<Rightarrow> Value" where
  "object_value m =
     \<lparr>IsObject = True, IsBoolean = False, Export = (GMap (Some m), None),
      ToBoolean = (True, None)\<rparr>"

definition boolean_value :: "bool \<Rightarrow> Value" where
  "boolean_value b =
     \<lparr>IsObject = False, IsBoolean = True, Export = (GBool b, None), ToBoolean = (b, None)\<rparr>"

definition string_value :: "string \<Rightarrow> Value" where
  "string_value x =
     \<lparr>IsObject = False, IsBoolean = False, Export = (GString x, None),
      ToBoolean = (x \<noteq> [], None)\<rparr>"

definition number_value :: "gofloat \<Rightarrow> Value" where
  "number_value x =
     \<lparr>IsObject = False, IsBoolean = False, Export = (GFloat64 x, None),
      ToBoolean = (\<not> float_eq x (Finite 0 0) \<and> x \<noteq> NaN, None)\<rparr>"

definition array_value :: "goval list \<Rightarrow> Value" where
  "array_value xs =
     \<lparr>IsObject = True, IsBoolean = False, Export = (GSlice xs, None),
      ToBoolean = (True, None)\<rparr>"

definition by_name :: "(string \<times> Value \<times> error option) list \<Rightarrow> unit runtime" where
  "by_name answers tr c =
     (case map_of answers (call_name c) of
        Some r \<Rightarrow> r
      | None \<Rightarrow> (string_value [], Some (ErrExternal ''not defined'')))"

text \<open>
  On amd64 the conversion instruction answers the smallest \<^verbatim>\<open>int64\<close> whenever the
  number does not fit.
\<close>

definition amd64_ovf :: "gofloat \<Rightarrow> 64 word" where
  "amd64_ovf t = 0x8000000000000000"

definition uplink_example :: "unit UplinkFunctions" where
  "uplink_example =
     \<lparr>Decoder = ''function Decoder(bytes, port) { return {a: bytes[0]}; }'',
      Converter = ''function Converter(fields, port) { return fields; }'',
      Validator = ''function Validator(fields, port) { return fields.a < 10; }'',
      UplinkFunctions.Logger = ()\<rparr>"

definition uplink_empty :: "unit UplinkFunctions" where
  "uplink_empty = \<lparr>Decoder = [], Converter = [], Validator = [], UplinkFunctions.Logger = ()\<rparr>"

definition downlink_example :: "unit DownlinkFunctions" where
  "downlink_example =
     \<lparr>Encoder = ''function Encoder(payload, port) { return payload.bytes; }'', Logger = ()\<rparr>"

definition downlink_empty :: "unit DownlinkFunctions" where
  "downlink_empty = \<lparr>Encoder = [], Logger = ()\<rparr>"

text \<open>
  Runtimes for \<open>uplink_example\<close> on the payload \<open>[5]\<close>: one where every function answers
  as its contract asks, one whose Validator rejects, one whose Validator answers a
  string, one whose Decoder answers a number, one whose Converter answers an array, and
  one whose Decoder fails.
\<close>

definition fields_a5 :: "(string \<times> goval) list" where
  "fields_a5 = [(''a'', GByte 5)]"

definition runtime_accept :: "unit runtime" where
  "runtime_accept =
     by_name
       [(''Decoder'', (object_value fields_a5, None)),
        (''Converter'', (object_value fields_a5, None)),
        (''Validator'', (boolean_value True, None))]"

definition runtime_reject :: "unit runtime" where
  "runtime_reject =
     by_name
       [(''Decoder'', (object_value fields_a5, None)),
        (''Converter'', (object_value fields_a5, None)),
        (''Validator'', (boolean_value False, None))]"

definition runtime_string_validator :: "unit runtime" where
  "runtime_string_validator =
     by_name
       [(''Decoder'', (object_value fields_a5, None)),
        (''Converter'', (object_value fields_a5, None)),
        (''Validator'', (string_value ''yes'', None))]"

definition runtime_number_decoder :: "unit runtime" where
  "runtime_number_decoder =
     by_name
       [(''Decoder'', (number_value (Finite 5 0), None)),
        (''Converter'', (object_value fields_a5, None)),
        (''Validator'', (boolean_value True, None))]"

definition runtime_array_converter :: "unit runtime" where
  "runtime_array_converter =
     by_name
       [(''Decoder'', (object_value fields_a5, None)),
        (''Converter'', (array_value [GFloat64 (Finite 5 0)], None)),
        (''Validator'', (boolean_value True, None))]"

definition runtime_failing_decoder :: "unit runtime" where
  "runtime_failing_decoder =
     by_name
       [(''Decoder'', (string_value [], Some (ErrExternal ''timeout''))),
        (''Converter'', (object_value fields_a5, None)),
        (''Validator'', (boolean_value True, None))]"

text \<open>A runtime whose Encoder answers the array \<open>xs\<close>.\<close>

definition runtime_encoder :: "goval list \<Rightarrow> unit runtime" where
  "runtime_encoder xs = by_name [(''Encoder'', (array_value xs, None))]"

section \<open>Auxiliary facts\<close>

subsection \<open>Conversions between integer types\<close>

lemma sint64: "- (2 ^ 63) \<le> v \<Longrightarrow> v < 2 ^ 63 \<Longrightarrow> sint (word_of_int v :: 64 word) = v"
  by (simp add: sint_sbintrunc' signed_take_bit_int_eq_self)

lemma sint64_nonneg: "0 \<le> v \<Longrightarrow> v < 2 ^ 63 \<Longrightarrow> sint (word_of_int v :: 64 word) = v"
  by (rule sint64) simp_all

lemma mod_wrap: "18446744073709551616 \<le> (y::int) \<Longrightarrow> y < 36893488147419103232 \<Longrightarrow>
   y mod 18446744073709551616 = y - 18446744073709551616"
proof -
  assume a: "18446744073709551616 \<le> y" "y < 36893488147419103232"
  have "y mod 18446744073709551616 = (y - 18446744073709551616) mod 18446744073709551616"
    by (simp add: mod_diff_right_eq [symmetric])
  also have "\<dots> = y - 18446744073709551616"
    using a by (intro mod_pos_pos_trivial) simp_all
  finally show ?thesis .
qed

lemma sint_uint64_big: "2 ^ 63 \<le> uint (t :: 64 word) \<Longrightarrow> sint t < 0"
proof -
  assume a: "2 ^ 63 \<le> uint t"
  have b: "uint t < 18446744073709551616" using uint_bounded [of t] by simp
  have "sint t = take_bit 64 (uint t + 2 ^ 63) - 2 ^ 63"
    by (simp only: sint_uint signed_take_bit_eq_take_bit_shift) simp
  then have c: "sint t = (uint t + 9223372036854775808) mod 18446744073709551616 - 9223372036854775808"
    by (simp only: take_bit_eq_mod) simp
  have "(uint t + 9223372036854775808) mod 18446744073709551616 = (uint t + 9223372036854775808) - 18446744073709551616"
    using a b by (intro mod_wrap) simp_all
  with c b show ?thesis by simp
qed

subsection \<open>Conversions between floating-point numbers and integers\<close>

lemma int64_to_float_shape: "\<exists>m e. int64_to_float p n = Finite m e \<and> 0 \<le> e"
  by (simp add: int64_to_float_def Let_def)

lemma fractional_not_eq:
  assumes "fractional t"
  shows "\<not> float_eq (int64_to_float p n) t"
proof
  assume eq: "float_eq (int64_to_float p n) t"
  from assms obtain m e where t: "t = Finite m e" and e: "e < 0" and m: "m mod 2 ^ nat (- e) \<noteq> 0"
    by (auto simp: fractional_def split: gofloat.splits)
  obtain m' e' where f: "int64_to_float p n = Finite m' e'" and e': "0 \<le> e'"
    using int64_to_float_shape by blast
  from eq t f e e' have "m' * 2 ^ nat (e' - e) = m"
    by (simp add: float_eq_def min_def)
  moreover have "nat (e' - e) = nat e' + nat (- e)" using e e' by simp
  ultimately have "m = (m' * 2 ^ nat e') * 2 ^ nat (- e)"
    by (simp add: power_add)
  then have "m mod 2 ^ nat (- e) = 0" by simp
  with m show False by simp
qed

lemma trunc_whole: "(m::int) mod 2 ^ k = 0 \<Longrightarrow> sgn m * (\<bar>m\<bar> div 2 ^ k) = m div 2 ^ k"
proof -
  assume "m mod 2 ^ k = 0"
  then obtain c where c: "m = c * 2 ^ k" by (metis mod_eq_0_iff_dvd dvd_def mult.commute)
  have "\<bar>m\<bar> = \<bar>c\<bar> * 2 ^ k" by (simp add: c abs_mult)
  then have "\<bar>m\<bar> div 2 ^ k = \<bar>c\<bar>" by simp
  moreover have "m div 2 ^ k = c" by (simp add: c)
  moreover have "sgn m = sgn c" by (simp add: c sgn_mult)
  ultimately show ?thesis by (simp add: mult_sgn_abs)
qed

lemma float_whole_trunc: "float_whole t = Some v \<Longrightarrow> float_trunc t = Some v"
  by (auto simp: float_whole_def float_trunc_def trunc_whole split: gofloat.splits if_splits)

lemma float_whole_to_int64:
  "float_whole t = Some v \<Longrightarrow> - (2 ^ 63) \<le> v \<Longrightarrow> v < 2 ^ 63 \<Longrightarrow> float_to_int64 ovf t = word_of_int v"
  by (simp add: float_to_int64_def float_whole_trunc)

lemma float_whole_value:
  assumes "float_whole (Finite m e) = Some v"
  shows "v * 2 ^ nat (- e) = m * 2 ^ nat e"
proof (cases "0 \<le> e")
  case True
  with assms show ?thesis by (simp add: float_whole_def)
next
  case False
  with assms have "m mod 2 ^ nat (- e) = 0" "v = m div 2 ^ nat (- e)"
    by (auto simp: float_whole_def split: if_splits)
  then have "v * 2 ^ nat (- e) = m" by (metis div_mult_mod_eq add.right_neutral)
  with False show ?thesis by simp
qed

lemma float_eq_whole_0:
  assumes "float_whole (Finite m e) = Some v"
  shows "float_eq (Finite v 0) (Finite m e)"
proof (cases "0 \<le> e")
  case True
  with float_whole_value [OF assms] show ?thesis by (simp add: float_eq_def min_def)
next
  case False
  with float_whole_value [OF assms] show ?thesis by (simp add: float_eq_def min_def)
qed

lemma int64_to_float_small:
  "bitlen \<bar>sint n\<bar> \<le> int p \<Longrightarrow> int64_to_float p n = Finite (sint n) 0"
  by (simp add: int64_to_float_def Let_def)

lemma float_eq_small:
  assumes "float_whole (Finite m e) = Some v" "- (2 ^ 63) \<le> v" "v < 2 ^ 63" "bitlen \<bar>v\<bar> \<le> int p"
  shows "float_eq (int64_to_float p (word_of_int v)) (Finite m e)"
  using assms by (simp add: int64_to_float_small sint64 float_eq_whole_0)

lemma float_eq_large:
  assumes w: "float_whole (Finite m e) = Some v" and lo: "- (2 ^ 63) \<le> v" and hi: "v < 2 ^ 63"
    and big: "\<not> bitlen \<bar>v\<bar> \<le> int p" and m: "\<bar>m\<bar> < 2 ^ p"
  shows "float_eq (int64_to_float p (word_of_int v)) (Finite m e)"
proof -
  define a where "a = \<bar>v\<bar>"
  define k where "k = bitlen a"
  define sh where "sh = nat (k - int p)"
  have kp: "int p < k" using big by (simp add: k_def a_def)
  then have a_pos: "0 < a" using bitlen_eq_zero_iff [of a] by (auto simp: k_def not_le)
  have e_nonneg: "0 \<le> e"
  proof (rule ccontr)
    assume "\<not> 0 \<le> e"
    with w have v: "v = m div 2 ^ nat (- e)" and d: "m mod 2 ^ nat (- e) = 0"
      by (auto simp: float_whole_def split: if_splits)
    from float_whole_value [OF w] \<open>\<not> 0 \<le> e\<close> have "m = v * 2 ^ nat (- e)" by simp
    then have "\<bar>m\<bar> = a * 2 ^ nat (- e)" by (simp add: abs_mult a_def)
    then have "a \<le> \<bar>m\<bar>" using a_pos by (simp add: mult_le_cancel_left1 mult.commute)
    with m have "a < 2 ^ p" by simp
    then have "bitlen a \<le> int p" using a_pos by (simp add: bitlen_le_iff_power)
    with kp show False by (simp add: k_def)
  qed
  then have v: "v = m * 2 ^ nat e" using w by (simp add: float_whole_def)
  then have a: "a = \<bar>m\<bar> * 2 ^ nat e" by (simp add: a_def abs_mult)
  have "2 ^ nat (k - 1) \<le> a" using bitlen_bounds [OF a_pos] by (simp add: k_def)
  also have "a < 2 ^ p * 2 ^ nat e" using m by (simp add: a)
  finally have "(2::int) ^ nat (k - 1) < 2 ^ (p + nat e)" by (simp add: power_add)
  then have "nat (k - 1) < p + nat e" by simp
  then have sh_le: "sh \<le> nat e" using kp by (simp add: sh_def)
  then obtain d where d: "nat e = sh + d" using le_Suc_ex by blast
  have a2: "a = (\<bar>m\<bar> * 2 ^ d) * 2 ^ sh" by (simp add: a d power_add)
  have r: "a mod 2 ^ sh = 0" by (simp add: a2)
  have q: "a div 2 ^ sh = \<bar>m\<bar> * 2 ^ d" by (simp add: a2)
  have s: "sint (word_of_int v :: 64 word) = v" using lo hi by (rule sint64)
  have "int64_to_float p (word_of_int v) = Finite (sgn v * (\<bar>m\<bar> * 2 ^ d)) (int sh)"
    using big r q by (simp add: int64_to_float_def Let_def s a_def [symmetric] k_def [symmetric] sh_def [symmetric])
  moreover have "sgn v = sgn m" by (simp add: v sgn_mult)
  moreover have "e = int sh + int d" using d e_nonneg by simp
  ultimately show ?thesis
    by (simp add: float_eq_def min_def mult.assoc [symmetric] mult_sgn_abs)
qed

lemma float_eq_exact:
  assumes "float_whole (Finite m e) = Some v" "- (2 ^ 63) \<le> v" "v < 2 ^ 63" "\<bar>m\<bar> < 2 ^ p"
  shows "float_eq (int64_to_float p (word_of_int v)) (Finite m e)"
  using assms float_eq_small float_eq_large by blast

subsection \<open>The loop of Encode\<close>

lemma Encode_loop_unfold:
  "Encode_loop ovf s i res =
     (if i < length s then
        (case el_step ovf (s ! i) of
           Inl e \<Rightarrow> (None, Some e)
         | Inr b \<Rightarrow> Encode_loop ovf s (Suc i) (res[i := b]))
      else (Some res, None))"
  by (subst Encode_loop.simps) (simp add: el_step_def OutOfRange_def split: sum.splits)

lemma Encode_loop_ok:
  assumes "length res = length s" "i \<le> length s"
    and "\<forall>j. i \<le> j \<and> j < length s \<longrightarrow> el_step ovf (s ! j) = Inr (g (s ! j))"
  shows "Encode_loop ovf s i res = (Some (take i res @ map g (drop i s)), None)"
  using assms
proof (induction "length s - i" arbitrary: i res)
  case 0
  then show ?case by (subst Encode_loop_unfold) simp
next
  case (Suc d)
  then have lt: "i < length s" by simp
  have step: "el_step ovf (s ! i) = Inr (g (s ! i))" using Suc.prems(3) lt by simp
  have "Encode_loop ovf s (Suc i) (res[i := g (s ! i)]) =
      (Some (take (Suc i) (res[i := g (s ! i)]) @ map g (drop (Suc i) s)), None)"
    using Suc.hyps(2) Suc.prems lt by (intro Suc.hyps(1)) simp_all
  moreover have "take (Suc i) (res[i := g (s ! i)]) = take i res @ [g (s ! i)]"
    using lt Suc.prems(1) by (simp add: take_Suc_conv_app_nth)
  moreover have "drop i s = s ! i # drop (Suc i) s"
    using lt by (simp add: Cons_nth_drop_Suc)
  ultimately show ?case
    using lt step by (subst Encode_loop_unfold) simp
qed

lemma Encode_loop_fail:
  assumes "i \<le> k" "k < length s"
    and "\<forall>j. i \<le> j \<and> j < k \<longrightarrow> (\<exists>b. el_step ovf (s ! j) = Inr b)"
    and "el_step ovf (s ! k) = Inl e"
  shows "Encode_loop ovf s i res = (None, Some e)"
  using assms
proof (induction "k - i" arbitrary: i res)
  case 0
  then have "i = k" by simp
  with 0 show ?case by (subst Encode_loop_unfold) simp
next
  case (Suc d)
  then have lt: "i < k" by simp
  then obtain b where b: "el_step ovf (s ! i) = Inr b" using Suc.prems(3) by auto
  have "Encode_loop ovf s (Suc i) (res[i := b]) = (None, Some e)"
    using Suc.hyps(2) Suc.prems lt by (intro Suc.hyps(1)) simp_all
  with lt Suc.prems(2) b show ?case by (subst Encode_loop_unfold) simp
qed

lemma Encode_loop_error_nil: "Encode_loop ovf s i res = (bs, Some e) \<Longrightarrow> bs = None"
proof (induction ovf s i res rule: Encode_loop.induct)
  case (1 ovf s i res)
  show ?case
  proof (cases "i < length s")
    case False
    with "1.prems" show ?thesis by (subst (asm) Encode_loop.simps) simp
  next
    case True
    show ?thesis
    proof (cases "el_int64 ovf (s ! i)")
      case (Inl e')
      with True "1.prems" show ?thesis by (subst (asm) Encode_loop.simps) simp
    next
      case (Inr n)
      show ?thesis
      proof (cases "sint n < 0 \<or> 255 < sint n")
        case True
        with \<open>i < length s\<close> Inr "1.prems" show ?thesis by (subst (asm) Encode_loop.simps) auto
      next
        case False
        with \<open>i < length s\<close> Inr "1.prems"
        have "Encode_loop ovf s (Suc i) (res[i := ucast n]) = (bs, Some e)"
          by (subst (asm) Encode_loop.simps) simp
        with "1.IH" [OF \<open>i < length s\<close> Inr False] show ?thesis by simp
      qed
    qed
  qed
qed

subsection \<open>The elements of the array\<close>

lemma has_fraction_el_int64: "has_fraction el \<Longrightarrow> el_int64 ovf el = Inl NotIntegers"
  by (auto simp: has_fraction_def el_int64_def NotIntegers_def InvalidReturnType_def Let_def
      fractional_not_eq
      split: goval.splits)

lemma bitlen_byte: "0 \<le> v \<Longrightarrow> v \<le> 255 \<Longrightarrow> bitlen \<bar>v\<bar> \<le> 8"
proof -
  assume "0 \<le> v" "v \<le> 255"
  then have "\<bar>v\<bar> < 2 ^ 8" by simp
  then show ?thesis by (cases "0 < \<bar>v\<bar>") (simp_all add: bitlen_le_iff_power del: abs_of_nonneg)
qed

lemma float_el_int64:
  assumes w: "float_whole t = Some v" and lo: "- (2 ^ 63) \<le> v" and hi: "v < 2 ^ 63"
    and r: "float_bits p emin emax t \<or> (0 \<le> v \<and> v \<le> 255 \<and> 8 \<le> p)"
  shows "float_eq (int64_to_float p (float_to_int64 ovf t)) t"
proof -
  from w obtain m e where t: "t = Finite m e"
    by (auto simp: float_whole_def split: gofloat.splits)
  have n: "float_to_int64 ovf (Finite m e) = word_of_int v"
    using w lo hi unfolding t by (rule float_whole_to_int64)
  have w': "float_whole (Finite m e) = Some v" using w by (simp add: t)
  from r show ?thesis
  proof
    assume "float_bits p emin emax t"
    then have "\<bar>m\<bar> < 2 ^ p" by (simp add: float_bits_def t)
    with w' lo hi show ?thesis unfolding t n by (intro float_eq_exact) simp_all
  next
    assume b: "0 \<le> v \<and> v \<le> 255 \<and> 8 \<le> p"
    then have "bitlen \<bar>v\<bar> \<le> int p" using bitlen_byte [of v] by simp
    with w' lo hi show ?thesis unfolding t n by (intro float_eq_small) simp_all
  qed
qed

lemma whole_el_int64:
  assumes w: "whole_number el = Some v" and u: "\<not> is_uint el"
    and f: "is_float el \<longrightarrow> - (2 ^ 63) \<le> v \<and> v < 2 ^ 63 \<and> (representable el \<or> (0 \<le> v \<and> v \<le> 255))"
  shows "el_int64 ovf el = Inr (word_of_int v)"
proof (cases el)
  case (GFloat32 t)
  with w f have a: "float_whole t = Some v" "- (2 ^ 63) \<le> v" "v < 2 ^ 63"
    "float_bits 24 (- 149) 104 t \<or> (0 \<le> v \<and> v \<le> 255 \<and> (8::nat) \<le> 24)"
    by (auto simp: whole_number_def is_float_def representable_def)
  from float_el_int64 [OF a, of ovf] float_whole_to_int64 [OF a(1-3), of ovf] GFloat32
  show ?thesis by (simp add: el_int64_def Let_def)
next
  case (GFloat64 t)
  with w f have a: "float_whole t = Some v" "- (2 ^ 63) \<le> v" "v < 2 ^ 63"
    "float_bits 53 (- 1074) 971 t \<or> (0 \<le> v \<and> v \<le> 255 \<and> (8::nat) \<le> 53)"
    by (auto simp: whole_number_def is_float_def representable_def)
  from float_el_int64 [OF a, of ovf] float_whole_to_int64 [OF a(1-3), of ovf] GFloat64
  show ?thesis by (simp add: el_int64_def Let_def)
qed (use w u in \<open>auto simp: whole_number_def is_uint_def el_int64_def\<close>)

lemma whole_number_bounds:
  assumes "whole_number el = Some v" "\<not> is_float el"
  shows "- (2 ^ 63) \<le> v \<and> v < 2 ^ 64"
proof -
  have un: "- (2 ^ 63) \<le> uint t" for t :: "'a::len word"
  proof -
    have "- (2 ^ 63) \<le> (0::int)" by simp
    also have "0 \<le> uint t" by simp
    finally show ?thesis .
  qed
  have s8: "- (2 ^ 63) \<le> sint t \<and> sint t < 2 ^ 64" for t :: "8 word"
    using sint_ge [of t] sint_lt [of t] by simp
  have s16: "- (2 ^ 63) \<le> sint t \<and> sint t < 2 ^ 64" for t :: "16 word"
    using sint_ge [of t] sint_lt [of t] by simp
  have s32: "- (2 ^ 63) \<le> sint t \<and> sint t < 2 ^ 64" for t :: "32 word"
    using sint_ge [of t] sint_lt [of t] by simp
  have s64: "- (2 ^ 63) \<le> sint t \<and> sint t < 2 ^ 64" for t :: "64 word"
    using sint_ge [of t] sint_lt [of t] by simp
  have u8: "- (2 ^ 63) \<le> uint t \<and> uint t < 2 ^ 64" for t :: "8 word"
    using uint_bounded [of t] un [of t] by simp
  have u16: "- (2 ^ 63) \<le> uint t \<and> uint t < 2 ^ 64" for t :: "16 word"
    using uint_bounded [of t] un [of t] by simp
  have u32: "- (2 ^ 63) \<le> uint t \<and> uint t < 2 ^ 64" for t :: "32 word"
    using uint_bounded [of t] un [of t] by simp
  have u64: "- (2 ^ 63) \<le> uint t \<and> uint t < 2 ^ 64" for t :: "64 word"
    using uint_bounded [of t] un [of t] by simp
  from assms show ?thesis
    by (cases el) (use s8 s16 s32 s64 u8 u16 u32 u64 in \<open>auto simp: whole_number_def is_float_def\<close>)
qed

lemma range_check:
  assumes "- (2 ^ 63) \<le> v" "v < 2 ^ 64"
  shows "(sint (word_of_int v :: 64 word) < 0 \<or> 255 < sint (word_of_int v :: 64 word)) =
     (v < 0 \<or> 255 < v)"
proof (cases "v < 2 ^ 63")
  case True
  with assms show ?thesis by (simp add: sint64)
next
  case False
  with assms have "uint (word_of_int v :: 64 word) = v"
    by (simp add: uint_word_of_int take_bit_int_eq_self)
  with False have "sint (word_of_int v :: 64 word) < 0"
    using sint_uint64_big [of "word_of_int v"] by simp
  with False show ?thesis by simp
qed

lemma ucast_byte: "(ucast (word_of_int v :: 64 word) :: 8 word) = word_of_int v"
  by (rule bit_word_eqI) (auto simp add: bit_simps)

lemma el_step_fraction: "has_fraction el \<Longrightarrow> el_step ovf el = Inl NotIntegers"
  by (simp add: el_step_def has_fraction_el_int64)

lemma el_step_whole:
  assumes w: "whole_number el = Some v" and u: "\<not> is_uint el"
    and f: "is_float el \<longrightarrow> - (2 ^ 63) \<le> v \<and> v < 2 ^ 63 \<and> (representable el \<or> (0 \<le> v \<and> v \<le> 255))"
  shows "el_step ovf el = (if v < 0 \<or> 255 < v then Inl OutOfRange else Inr (word_of_int v))"
proof -
  have b: "- (2 ^ 63) \<le> v \<and> v < 2 ^ 64"
  proof (cases "is_float el")
    case True
    with f show ?thesis by simp
  next
    case False
    with w show ?thesis by (rule whole_number_bounds)
  qed
  have "el_int64 ovf el = Inr (word_of_int v)" using w u f by (rule whole_el_int64)
  moreover have "(sint (word_of_int v :: 64 word) < 0 \<or> 255 < sint (word_of_int v :: 64 word)) =
     (v < 0 \<or> 255 < v)" using b by (intro range_check) simp_all
  ultimately show ?thesis by (simp add: el_step_def ucast_byte)
qed

subsection \<open>Floating-point numbers beyond the range of int64\<close>

lemma float_eq_value:
  assumes eq: "float_eq (Finite m' e') (Finite m e)" and e': "0 \<le> e'"
    and w: "float_whole (Finite m e) = Some v"
  shows "v = m' * 2 ^ nat e'"
proof (cases "0 \<le> e")
  case True
  with w have v: "v = m * 2 ^ nat e" by (simp add: float_whole_def)
  define e0 where "e0 = min e' e"
  have e0: "0 \<le> e0" "e0 \<le> e'" "e0 \<le> e" using True e' by (simp_all add: e0_def)
  from eq have "m' * 2 ^ nat (e' - e0) = m * 2 ^ nat (e - e0)"
    by (simp add: float_eq_def e0_def Let_def)
  then have "m' * 2 ^ nat (e' - e0) * 2 ^ nat e0 = m * 2 ^ nat (e - e0) * 2 ^ nat e0" by simp
  moreover have "nat (e' - e0) + nat e0 = nat e'" "nat (e - e0) + nat e0 = nat e"
    using e0 by simp_all
  ultimately have "m' * 2 ^ nat e' = m * 2 ^ nat e"
    by (metis mult.assoc power_add)
  with v show ?thesis by simp
next
  case False
  with eq e' have "m' * 2 ^ nat (e' - e) = m" by (simp add: float_eq_def min_def)
  moreover have "nat (e' - e) = nat e' + nat (- e)" using False e' by simp
  ultimately have m: "m = (m' * 2 ^ nat e') * 2 ^ nat (- e)" by (simp add: power_add)
  from False w have "v = m div 2 ^ nat (- e)" by (auto simp: float_whole_def split: if_splits)
  with m show ?thesis by simp
qed

lemma int64_to_float_bound:
  assumes p: "1 \<le> p"
  shows "\<exists>m' e'. int64_to_float p n = Finite m' e' \<and> 0 \<le> e' \<and> \<bar>m' * 2 ^ nat e'\<bar> \<le> 2 ^ 63"
proof -
  define v where "v = sint n"
  define a where "a = \<bar>v\<bar>"
  define k where "k = bitlen a"
  have a63: "a \<le> 2 ^ 63" using sint_ge [of n] sint_lt [of n] by (simp add: a_def v_def abs_le_iff)
  show ?thesis
  proof (cases "k \<le> int p")
    case True
    then have "int64_to_float p n = Finite v 0"
      by (simp add: int64_to_float_def Let_def v_def a_def k_def)
    with a63 show ?thesis by (simp add: a_def)
  next
    case False
    define sh where "sh = nat (k - int p)"
    define q where "q = a div 2 ^ sh"
    define r where "r = a mod 2 ^ sh"
    define q' where "q' = (if 2 ^ sh < 2 * r \<or> (2 * r = 2 ^ sh \<and> odd q) then q + 1 else q)"
    have f: "int64_to_float p n = Finite (sgn v * q') (int sh)"
      using False
      by (simp add: int64_to_float_def Let_def v_def [symmetric] a_def [symmetric]
          k_def [symmetric] sh_def [symmetric] q_def [symmetric] r_def [symmetric] q'_def)
    have a_pos: "0 < a" using False bitlen_eq_zero_iff [of a] by (auto simp: k_def a_def)
    have "a < 2 ^ 64" using a63 by simp
    then have "k \<le> 64" using a_pos by (simp add: k_def bitlen_le_iff_power)
    then have sh63: "sh \<le> 63" using p by (simp add: sh_def)
    then obtain d where d: "63 = sh + d" using le_Suc_ex by blast
    have pw: "(2::int) ^ 63 = 2 ^ d * 2 ^ sh" by (simp add: d power_add)
    have q_nonneg: "0 \<le> q" using a_pos by (simp add: q_def pos_imp_zdiv_nonneg_iff)
    have a_eq: "a = q * 2 ^ sh + r" unfolding q_def r_def by (rule div_mult_mod_eq [symmetric])
    have r_nonneg: "0 \<le> r" by (simp add: r_def)
    have bound: "q' * 2 ^ sh \<le> 2 ^ 63"
    proof (cases "q' = q")
      case True
      have "q * 2 ^ sh \<le> a" using a_eq r_nonneg by simp
      with a63 True show ?thesis by simp
    next
      case False
      then have q1: "q' = q + 1" and r_pos: "r \<noteq> 0"
        by (auto simp: q'_def split: if_splits)
      have "a \<noteq> 2 ^ 63"
      proof
        assume "a = 2 ^ 63"
        then have "r = 0" unfolding r_def pw by simp
        with r_pos show False by simp
      qed
      with a63 have lt: "a < 2 ^ d * 2 ^ sh" unfolding pw by simp
      have le: "q * 2 ^ sh \<le> a" using a_eq r_nonneg by simp
      have "q < 2 ^ d"
      proof (rule ccontr)
        assume "\<not> q < 2 ^ d"
        then have "2 ^ d * 2 ^ sh \<le> q * 2 ^ sh" by (simp add: mult_right_mono)
        with le lt show False by simp
      qed
      then have "q + 1 \<le> 2 ^ d" by simp
      then have "(q + 1) * 2 ^ sh \<le> 2 ^ d * 2 ^ sh" by (simp add: mult_right_mono)
      with q1 pw show ?thesis by simp
    qed
    have "0 \<le> q'" using q_nonneg by (simp add: q'_def)
    moreover have "\<bar>sgn v\<bar> = 1" using a_pos by (auto simp: a_def)
    ultimately have "\<bar>sgn v * q' * 2 ^ sh\<bar> = q' * 2 ^ sh"
      by (simp add: abs_mult)
    with bound f show ?thesis by simp
  qed
qed

lemma float_beyond_int64:
  assumes w: "float_whole t = Some v" and b: "v < - (2 ^ 63) \<or> 2 ^ 63 < v" and p: "1 \<le> p"
  shows "\<not> float_eq (int64_to_float p n) t"
proof
  assume eq: "float_eq (int64_to_float p n) t"
  from w obtain m e where t: "t = Finite m e"
    by (auto simp: float_whole_def split: gofloat.splits)
  from int64_to_float_bound [OF p, of n]
  obtain m' e' where f: "int64_to_float p n = Finite m' e'" "0 \<le> e'"
    "\<bar>m' * 2 ^ nat e'\<bar> \<le> 2 ^ 63" by blast
  from eq w have "v = m' * 2 ^ nat e'" unfolding t f(1) using f(2) by (intro float_eq_value)
  with f(3) b show False by (simp add: abs_le_iff)
qed

subsection \<open>The array as a whole\<close>

lemma byte_ok_step:
  assumes "byte_ok el"
  shows "el_step ovf el = Inr (byte_of el) \<and> whole_number el = Some (uint (byte_of el))"
proof -
  from assms obtain v where v: "whole_number el = Some v" "0 \<le> v" "v \<le> 255" and u: "\<not> is_uint el"
    by (auto simp: byte_ok_def split: option.splits)
  have "el_step ovf el = (if v < 0 \<or> 255 < v then Inl OutOfRange else Inr (word_of_int v))"
    using v u by (intro el_step_whole) simp_all
  moreover have "uint (word_of_int v :: 8 word) = v"
    using v by (simp add: uint_word_of_int take_bit_int_eq_self)
  ultimately show ?thesis using v by (simp add: byte_of_def)
qed

lemma el_step_beyond:
  assumes "is_float el" and "whole_number el = Some v" and "v < - (2 ^ 63) \<or> 2 ^ 63 < v"
  shows "el_step ovf el = Inl NotIntegers"
  using assms
  by (auto simp: is_float_def whole_number_def el_step_def el_int64_def Let_def NotIntegers_def
      InvalidReturnType_def float_beyond_int64 split: goval.splits)

lemma Encode_array:
  assumes "Encoder f \<noteq> []"
    and "fst (RunCode rt ''Encoder'' (Encode_code f) (Encode_env payload port) timeOut
      (Logger f) tr) = (val, None)"
    and "IsObject val" and "Export val = (GSlice xs, None)"
  shows "fst (Encode rt ovf f payload port tr) =
     Returns (Encode_loop ovf xs 0 (replicate (length xs) 0))"
proof -
  obtain tr' where "RunCode rt ''Encoder'' (Encode_code f) (Encode_env payload port) timeOut
      (Logger f) tr = ((val, None), tr')"
    using assms(2) by (metis prod.collapse)
  with assms(1,3,4) show ?thesis by (simp add: Encode_def)
qed

lemma Encode_loop_first_error:
  assumes xs: "xs = pre @ el # post" and pre: "list_all byte_ok pre"
    and el: "el_step ovf el = Inl e"
  shows "Encode_loop ovf xs 0 res = (None, Some e)"
proof (rule Encode_loop_fail [where k = "length pre"])
  show "0 \<le> length pre" by simp
  show "length pre < length xs" by (simp add: xs)
  show "\<forall>j. 0 \<le> j \<and> j < length pre \<longrightarrow> (\<exists>b. el_step ovf (xs ! j) = Inr b)"
  proof (intro allI impI)
    fix j assume "0 \<le> j \<and> j < length pre"
    then have "xs ! j = pre ! j" "byte_ok (pre ! j)"
      using pre by (simp_all add: xs nth_append list_all_length)
    then show "\<exists>b. el_step ovf (xs ! j) = Inr b" using byte_ok_step by auto
  qed
  show "el_step ovf (xs ! length pre) = Inl e" using el by (simp add: xs)
qed

lemma Encode_loop_bytes:
  assumes "list_all byte_ok xs"
  shows "Encode_loop ovf xs 0 (replicate (length xs) 0) = (Some (map byte_of xs), None)"
proof -
  have "Encode_loop ovf xs 0 (replicate (length xs) 0) =
      (Some (take 0 (replicate (length xs) 0) @ map byte_of (drop 0 xs)), None)"
  proof (rule Encode_loop_ok)
    show "\<forall>j. 0 \<le> j \<and> j < length xs \<longrightarrow> el_step ovf (xs ! j) = Inr (byte_of (xs ! j))"
      using assms byte_ok_step by (auto simp: list_all_length)
  qed simp_all
  then show ?thesis by simp
qed

lemma Encode_pipeline_fst:
  "fst (Encode_pipeline rt ovf f payload port tr) =
     (case fst (Encode rt ovf f payload port tr) of
        Panics \<Rightarrow> Panics
      | Returns (encoded, err) \<Rightarrow>
          if err \<noteq> None then Returns (None, False, err) else Returns (encoded, True, None))"
  by (simp add: Encode_pipeline_def split: prod.splits outcome.splits)

subsection \<open>The runs of scripts\<close>

lemma Decode_calls:
  "\<exists>cs. snd (Decode rt f payload port tr) = tr @ cs \<and>
     (\<forall>c\<in>set cs. call_name c = ''Decoder'' \<and> call_timeout c = timeOut)"
  by (simp add: Decode_def RunCode_def Let_def split: prod.splits goval.splits)

lemma Convert_calls:
  "\<exists>cs. snd (Convert rt f flds port tr) = tr @ cs \<and>
     (\<forall>c\<in>set cs. call_name c = ''Converter'' \<and> call_timeout c = timeOut)"
  by (simp add: Convert_def RunCode_def Let_def split: prod.splits goval.splits)

lemma Validate_calls:
  "\<exists>cs. snd (Validate rt f flds port tr) = tr @ cs \<and>
     (\<forall>c\<in>set cs. call_name c = ''Validator'' \<and> call_timeout c = timeOut)"
  by (simp add: Validate_def RunCode_def Let_def split: prod.splits goval.splits)

lemma Encode_calls:
  "\<exists>cs. snd (Encode rt ovf f payload port tr) = tr @ cs \<and>
     (\<forall>c\<in>set cs. call_name c = ''Encoder'' \<and> call_timeout c = timeOut)"
  by (simp add: Encode_def RunCode_def Let_def split: prod.splits goval.splits)

lemma Decode_runs:
  "Decoder f \<noteq> [] \<Longrightarrow> map call_name (drop (length tr) (snd (Decode rt f payload port tr))) = [''Decoder'']"
  by (simp add: Decode_def RunCode_def Let_def split: prod.splits goval.splits)

lemma Convert_runs:
  "Converter f \<noteq> [] \<Longrightarrow> map call_name (drop (length tr) (snd (Convert rt f flds port tr))) = [''Converter'']"
  by (simp add: Convert_def RunCode_def Let_def split: prod.splits goval.splits)

lemma Validate_runs:
  "Validator f \<noteq> [] \<Longrightarrow> map call_name (drop (length tr) (snd (Validate rt f flds port tr))) = [''Validator'']"
  by (simp add: Validate_def RunCode_def Let_def split: prod.splits goval.splits)

lemma Decode_pipeline_cases:
  assumes D: "Decode rt f payload port tr = ((d, e1), tr1)"
    and C: "Convert rt f d port tr1 = ((c, e2), tr2)"
    and V: "Validate rt f c port tr2 = ((b, e3), tr3)"
  shows "Decode_pipeline rt f payload port tr =
     (if e1 \<noteq> None then ((None, False, e1), tr1)
      else if e2 \<noteq> None then ((None, False, e2), tr2)
      else ((c, b, e3), tr3))"
  using assms by (simp add: Decode_pipeline_def)

lemma Decode_pipeline_calls:
  "\<exists>cs. snd (Decode_pipeline rt f payload port tr) = tr @ cs \<and>
     (\<forall>c\<in>set cs. call_timeout c = timeOut)"
proof -
  obtain d e1 tr1 where D: "Decode rt f payload port tr = ((d, e1), tr1)"
    by (metis surj_pair)
  obtain c e2 tr2 where C: "Convert rt f d port tr1 = ((c, e2), tr2)"
    by (metis surj_pair)
  obtain b e3 tr3 where V: "Validate rt f c port tr2 = ((b, e3), tr3)"
    by (metis surj_pair)
  from Decode_calls [of rt f payload port tr] D
  obtain cs1 where 1: "tr1 = tr @ cs1" "\<forall>c\<in>set cs1. call_timeout c = timeOut" by auto
  from Convert_calls [of rt f d port tr1] C
  obtain cs2 where 2: "tr2 = tr1 @ cs2" "\<forall>c\<in>set cs2. call_timeout c = timeOut" by auto
  from Validate_calls [of rt f c port tr2] V
  obtain cs3 where 3: "tr3 = tr2 @ cs3" "\<forall>c\<in>set cs3. call_timeout c = timeOut" by auto
  show ?thesis
    unfolding Decode_pipeline_cases [OF D C V] using 1 2 3 by auto
qed

lemma Encode_pipeline_trace:
  "snd (Encode_pipeline rt ovf f payload port tr) = snd (Encode rt ovf f payload port tr)"
  by (simp add: Encode_pipeline_def split: prod.splits outcome.splits)

subsection \<open>The example runs\<close>

lemmas ex_defs = uplink_example_def runtime_accept_def runtime_reject_def
  runtime_string_validator_def runtime_number_decoder_def runtime_array_converter_def
  runtime_failing_decoder_def
  by_name_def object_value_def boolean_value_def string_value_def number_value_def array_value_def
  fields_a5_def RunCode_def

lemma ex_Decode:
  "Decode runtime_reject uplink_example [5] 1 [] =
     ((Some fields_a5, None), snd (Decode runtime_reject uplink_example [5] 1 []))"
  "Decode runtime_string_validator uplink_example [5] 1 [] =
     ((Some fields_a5, None), snd (Decode runtime_string_validator uplink_example [5] 1 []))"
  "Decode runtime_array_converter uplink_example [5] 1 [] =
     ((Some fields_a5, None), snd (Decode runtime_array_converter uplink_example [5] 1 []))"
  "Decode runtime_accept uplink_example [5] 1 [] =
     ((Some fields_a5, None), snd (Decode runtime_accept uplink_example [5] 1 []))"
  "Decode runtime_failing_decoder uplink_example [5] 1 [] =
     ((None, Some (ErrExternal ''timeout'')),
      snd (Decode runtime_failing_decoder uplink_example [5] 1 []))"
  by (simp_all add: Decode_def ex_defs)

lemma ex_Convert:
  "Convert runtime_reject uplink_example (Some fields_a5) 1 tr =
     ((Some fields_a5, None), snd (Convert runtime_reject uplink_example (Some fields_a5) 1 tr))"
  "Convert runtime_string_validator uplink_example (Some fields_a5) 1 tr =
     ((Some fields_a5, None),
      snd (Convert runtime_string_validator uplink_example (Some fields_a5) 1 tr))"
  "Convert runtime_accept uplink_example (Some fields_a5) 1 tr =
     ((Some fields_a5, None), snd (Convert runtime_accept uplink_example (Some fields_a5) 1 tr))"
  "Convert runtime_array_converter uplink_example (Some fields_a5) 1 tr =
     ((None, Some (InvalidReturnType ''Converter'' ''does not return an object'')),
      snd (Convert runtime_array_converter uplink_example (Some fields_a5) 1 tr))"
  by (simp_all add: Convert_def ex_defs InvalidReturnType_def)

lemma ex_Validate:
  "fst (Validate runtime_string_validator uplink_example (Some fields_a5) 1 tr) =
     (False, Some (InvalidReturnType ''Validator'' ''does not return a boolean''))"
  "fst (Validate runtime_reject uplink_example (Some fields_a5) 1 tr) = (False, None)"
  "fst (Validate runtime_accept uplink_example (Some fields_a5) 1 tr) = (True, None)"
  by (simp_all add: Validate_def ex_defs InvalidReturnType_def)

lemma ex_pipeline:
  "Decode_pipeline runtime_failing_decoder uplink_example [5] 1 [] =
     ((None, False, Some (ErrExternal ''timeout'')),
      snd (Decode runtime_failing_decoder uplink_example [5] 1 []))"
  "map call_name (snd (Decode runtime_failing_decoder uplink_example [5] 1 [])) = [''Decoder'']"
  "fst (Decode_pipeline runtime_array_converter uplink_example [5] 1 []) =
     (None, False, Some (InvalidReturnType ''Converter'' ''does not return an object''))"
  "map call_name (snd (Decode_pipeline runtime_array_converter uplink_example [5] 1 [])) =
     [''Decoder'', ''Converter'']"
  "fst (Decode_pipeline runtime_accept uplink_example [5] 1 []) = (Some fields_a5, True, None)"
  "fst (Decode_pipeline runtime_string_validator uplink_example [5] 1 []) =
     (Some fields_a5, False, Some (InvalidReturnType ''Validator'' ''does not return a boolean''))"
  by (simp_all add: Decode_pipeline_def Decode_def Convert_def Validate_def ex_defs
      InvalidReturnType_def)

lemma ex_encoder:
  "Encoder downlink_example \<noteq> []"
  "fst (RunCode (runtime_encoder xs) ''Encoder'' (Encode_code downlink_example)
     (Encode_env payload port) timeOut (Logger downlink_example) tr) = (array_value xs, None)"
  "IsObject (array_value xs)"
  "Export (array_value xs) = (GSlice xs, None)"
  by (simp_all add: downlink_example_def runtime_encoder_def by_name_def RunCode_def
      array_value_def)

section \<open>The properties\<close>

subsection \<open>The uplink pipeline\<close>

text \<open>
  Claim C3: when the Decoder, Converter and Validator scripts are all empty, the uplink
  pipeline returns nil fields, \<open>valid = true\<close> and no error, for every payload and port:
  the empty Decoder answers nil fields, the empty Converter passes its input through, the
  empty Validator answers true. No script is run: the trace is unchanged.
\<close>

theorem C3_empty_uplink:
  assumes "Decoder f = []" and "Converter f = []" and "Validator f = []"
  shows "Decode rt f payload port tr = ((None, None), tr) \<and>
     Convert rt f flds port tr = ((flds, None), tr) \<and>
     Validate rt f flds port tr = ((True, None), tr) \<and>
     Decode_pipeline rt f payload port tr = ((None, True, None), tr)"
  using assms by (simp add: Decode_pipeline_def Decode_def Convert_def Validate_def)

theorem C3_empty_uplink_witness:
  "Decode (by_name []) uplink_empty [1, 2] 1 [] = ((None, None), []) \<and>
   Convert (by_name []) uplink_empty (Some [(''a'', GByte 1)]) 1 [] =
     ((Some [(''a'', GByte 1)], None), []) \<and>
   Validate (by_name []) uplink_empty (Some [(''a'', GByte 1)]) 1 [] = ((True, None), []) \<and>
   Decode_pipeline (by_name []) uplink_empty [1, 2] 1 [] = ((None, True, None), [])"
  using C3_empty_uplink [of uplink_empty "by_name []" "[1, 2]" 1 "[]" "Some [(''a'', GByte 1)]"]
  by (simp add: uplink_empty_def)

text \<open>
  Claim C5: when the Decoder (the Converter) script runs without error and its result is
  not an object that exports to a string-keyed map, the \<open>Decode\<close> (the \<open>Convert\<close>) stage
  returns no field map and the error "does not return an object" naming the transform.
\<close>

theorem C5_non_object_result:
  "(Decoder f \<noteq> [] \<and>
    fst (RunCode rt ''Decoder'' (Decode_code f) (Decode_env payload port) timeOut
      (UplinkFunctions.Logger f) tr) = (val, None) \<and>
    \<not> exports_field_map val \<longrightarrow>
    fst (Decode rt f payload port tr) =
      (None, Some (InvalidReturnType ''Decoder'' ''does not return an object''))) \<and>
   (Converter f \<noteq> [] \<and>
    fst (RunCode rt ''Converter'' (Convert_code f) (Convert_env flds port) timeOut
      (UplinkFunctions.Logger f) tr) = (val, None) \<and>
    \<not> exports_field_map val \<longrightarrow>
    fst (Convert rt f flds port tr) =
      (None, Some (InvalidReturnType ''Converter'' ''does not return an object'')))"
  by (auto simp: Decode_def Convert_def Let_def exports_field_map_def InvalidReturnType_def
      split: prod.splits goval.splits)

theorem C5_non_object_result_witness:
  "fst (Decode runtime_number_decoder uplink_example [5] 1 []) =
     (None, Some (InvalidReturnType ''Decoder'' ''does not return an object'')) \<and>
   fst (Convert runtime_array_converter uplink_example (Some fields_a5) 1 []) =
     (None, Some (InvalidReturnType ''Converter'' ''does not return an object''))"
  using C5_non_object_result [where f = uplink_example and rt = runtime_number_decoder and payload = "[5]"
      and port = 1 and tr = "[]" and val = "number_value (Finite 5 0)"]
    C5_non_object_result [where f = uplink_example and rt = runtime_array_converter and flds = "Some fields_a5"
      and port = 1 and tr = "[]" and val = "array_value [GFloat64 (Finite 5 0)]"]
  by (simp add: ex_defs exports_field_map_def)

text \<open>
  Claim C6: a Validator that answers the boolean false makes the pipeline return the
  converted fields, \<open>false\<close> and no error. A failure of the \<open>Validate\<close> stage (the run
  fails, or the result is no boolean) answers \<open>false\<close> with an error, and the pipeline
  returns every error of \<open>Validate\<close> as its own, so the two outcomes differ in the error.
\<close>

theorem C6_validator_rejection:
  "(Decode rt f payload port tr = ((d, None), tr1) \<and>
    Convert rt f d port tr1 = ((c, None), tr2) \<and>
    Validator f \<noteq> [] \<and>
    fst (RunCode rt ''Validator'' (Validate_code f) (Validate_env c port) timeOut
      (UplinkFunctions.Logger f) tr2) = (val, None) \<and>
    IsBoolean val \<and> ToBoolean val = (False, None) \<longrightarrow>
    fst (Decode_pipeline rt f payload port tr) = (c, False, None)) \<and>
   (Validator f \<noteq> [] \<and>
    fst (RunCode rt ''Validator'' (Validate_code f) (Validate_env c port) timeOut
      (UplinkFunctions.Logger f) tr2) = (val, err) \<and>
    (err \<noteq> None \<or> \<not> IsBoolean val) \<longrightarrow>
    fst (fst (Validate rt f c port tr2)) = False \<and> snd (fst (Validate rt f c port tr2)) \<noteq> None) \<and>
   (Decode rt f payload port tr = ((d, None), tr1) \<and>
    Convert rt f d port tr1 = ((c, None), tr2) \<and>
    fst (Validate rt f c port tr2) = (b, Some e) \<longrightarrow>
    fst (Decode_pipeline rt f payload port tr) = (c, b, Some e))"
  by (auto simp: Decode_pipeline_def Validate_def Let_def NewErrInvalidArgument_def
      split: prod.splits)

theorem C6_validator_rejection_witness:
  "fst (Decode_pipeline runtime_reject uplink_example [5] 1 []) = (Some fields_a5, False, None) \<and>
   fst (Validate runtime_string_validator uplink_example (Some fields_a5) 1 []) =
     (False, Some (InvalidReturnType ''Validator'' ''does not return a boolean'')) \<and>
   fst (Decode_pipeline runtime_string_validator uplink_example [5] 1 []) =
     (Some fields_a5, False, Some (InvalidReturnType ''Validator'' ''does not return a boolean''))"
proof -
  let ?tr1 = "snd (Decode runtime_reject uplink_example [5] 1 [])"
  let ?tr2 = "snd (Convert runtime_reject uplink_example (Some fields_a5) 1 ?tr1)"
  let ?sr1 = "snd (Decode runtime_string_validator uplink_example [5] 1 [])"
  let ?sr2 = "snd (Convert runtime_string_validator uplink_example (Some fields_a5) 1 ?sr1)"
  have 1: "fst (Decode_pipeline runtime_reject uplink_example [5] 1 []) =
      (Some fields_a5, False, None)"
    using C6_validator_rejection [where rt = runtime_reject and f = uplink_example and payload = "[5]" and port = 1
        and tr = "[]" and d = "Some fields_a5" and ?tr1.0 = ?tr1 and c = "Some fields_a5"
        and ?tr2.0 = ?tr2 and val = "boolean_value False"]
      ex_Decode(1) ex_Convert(1) [of ?tr1]
    by (simp add: uplink_example_def runtime_reject_def by_name_def RunCode_def boolean_value_def)
  have 2: "fst (Validate runtime_string_validator uplink_example (Some fields_a5) 1 []) =
     (False, Some (InvalidReturnType ''Validator'' ''does not return a boolean''))"
    using C6_validator_rejection [where rt = runtime_string_validator and f = uplink_example and port = 1
        and ?tr2.0 = "[]" and c = "Some fields_a5" and val = "string_value ''yes''" and err = None]
      ex_Validate(1) [of "[]"]
    by simp
  have 3: "fst (Decode_pipeline runtime_string_validator uplink_example [5] 1 []) =
     (Some fields_a5, False, Some (InvalidReturnType ''Validator'' ''does not return a boolean''))"
    using C6_validator_rejection [where rt = runtime_string_validator and f = uplink_example and payload = "[5]"
        and port = 1 and tr = "[]" and d = "Some fields_a5" and ?tr1.0 = ?sr1
        and c = "Some fields_a5" and ?tr2.0 = ?sr2 and b = False
        and e = "InvalidReturnType ''Validator'' ''does not return a boolean''"]
      ex_Decode(2) ex_Convert(2) [of ?sr1] ex_Validate(1) [of ?sr2]
    by simp
  from 1 2 3 show ?thesis by simp
qed

text \<open>
  Claim C7: the uplink pipeline runs \<open>Decode\<close>, then \<open>Convert\<close> on the decoded fields,
  then \<open>Validate\<close> on the converted fields. When \<open>Decode\<close> returns an error the pipeline
  returns \<open>(nil, false, error)\<close> and only the Decoder has been run; when \<open>Convert\<close>
  returns an error the pipeline returns \<open>(nil, false, error)\<close> and the Validator has not
  been run. With three scripts and no error before \<open>Validate\<close>, the runs are those of the
  Decoder, the Converter and the Validator, in this order.
\<close>

theorem C7_short_circuit:
  "(Decode rt f payload port tr = ((d, Some e), tr1) \<longrightarrow>
      Decode_pipeline rt f payload port tr = ((None, False, Some e), tr1) \<and>
      (\<forall>x \<in> set (drop (length tr) tr1). call_name x = ''Decoder'')) \<and>
   (Decode rt f payload port tr = ((d, None), tr1) \<and>
    Convert rt f d port tr1 = ((c, Some e), tr2) \<longrightarrow>
      Decode_pipeline rt f payload port tr = ((None, False, Some e), tr2) \<and>
      (\<forall>x \<in> set (drop (length tr) tr2). call_name x \<noteq> ''Validator'')) \<and>
   (Decode rt f payload port tr = ((d, None), tr1) \<and>
    Convert rt f d port tr1 = ((c, None), tr2) \<and>
    Validate rt f c port tr2 = ((b, err), tr3) \<longrightarrow>
      Decode_pipeline rt f payload port tr = ((c, b, err), tr3)) \<and>
   (Decoder f \<noteq> [] \<and> Converter f \<noteq> [] \<and> Validator f \<noteq> [] \<and>
    Decode rt f payload port tr = ((d, None), tr1) \<and>
    Convert rt f d port tr1 = ((c, None), tr2) \<longrightarrow>
      map call_name (drop (length tr) (snd (Decode_pipeline rt f payload port tr))) =
        [''Decoder'', ''Converter'', ''Validator''])"
proof -
  have 1: "Decode_pipeline rt f payload port tr = ((None, False, Some e), tr1) \<and>
      (\<forall>x \<in> set (drop (length tr) tr1). call_name x = ''Decoder'')"
    if D: "Decode rt f payload port tr = ((d, Some e), tr1)"
    using Decode_calls [of rt f payload port tr] D by (auto simp: Decode_pipeline_def)
  have 2: "Decode_pipeline rt f payload port tr = ((None, False, Some e), tr2) \<and>
      (\<forall>x \<in> set (drop (length tr) tr2). call_name x \<noteq> ''Validator'')"
    if D: "Decode rt f payload port tr = ((d, None), tr1)"
      and C: "Convert rt f d port tr1 = ((c, Some e), tr2)"
    using Decode_calls [of rt f payload port tr] Convert_calls [of rt f d port tr1] D C
    by (auto simp: Decode_pipeline_def)
  have 3: "Decode_pipeline rt f payload port tr = ((c, b, err), tr3)"
    if "Decode rt f payload port tr = ((d, None), tr1)"
      and "Convert rt f d port tr1 = ((c, None), tr2)"
      and "Validate rt f c port tr2 = ((b, err), tr3)"
    using that by (simp add: Decode_pipeline_def)
  have 4: "map call_name (drop (length tr) (snd (Decode_pipeline rt f payload port tr))) =
        [''Decoder'', ''Converter'', ''Validator'']"
    if ne: "Decoder f \<noteq> []" "Converter f \<noteq> []" "Validator f \<noteq> []"
      and D: "Decode rt f payload port tr = ((d, None), tr1)"
      and C: "Convert rt f d port tr1 = ((c, None), tr2)"
  proof -
    obtain b' e3 tr3' where V: "Validate rt f c port tr2 = ((b', e3), tr3')"
      by (metis surj_pair)
    have p: "snd (Decode_pipeline rt f payload port tr) = tr3'"
      using D C V by (simp add: Decode_pipeline_def)
    obtain cs1 where cs1: "tr1 = tr @ cs1"
      using Decode_calls [of rt f payload port tr] D by auto
    obtain cs2 where cs2: "tr2 = tr1 @ cs2"
      using Convert_calls [of rt f d port tr1] C by auto
    obtain cs3 where cs3: "tr3' = tr2 @ cs3"
      using Validate_calls [of rt f c port tr2] V by auto
    have "map call_name cs1 = [''Decoder'']"
      using Decode_runs [OF ne(1), of tr rt payload port] D cs1 by simp
    moreover have "map call_name cs2 = [''Converter'']"
      using Convert_runs [OF ne(2), of tr1 rt d port] C cs2 by simp
    moreover have "map call_name cs3 = [''Validator'']"
      using Validate_runs [OF ne(3), of tr2 rt c port] V cs3 by simp
    ultimately show ?thesis by (simp add: p cs1 cs2 cs3)
  qed
  from 1 2 3 4 show ?thesis by blast
qed

theorem C7_short_circuit_witness:
  "fst (Decode_pipeline runtime_failing_decoder uplink_example [5] 1 []) =
     (None, False, Some (ErrExternal ''timeout'')) \<and>
   map call_name (snd (Decode_pipeline runtime_failing_decoder uplink_example [5] 1 [])) =
     [''Decoder''] \<and>
   fst (Decode_pipeline runtime_array_converter uplink_example [5] 1 []) =
     (None, False, Some (InvalidReturnType ''Converter'' ''does not return an object'')) \<and>
   map call_name (snd (Decode_pipeline runtime_array_converter uplink_example [5] 1 [])) =
     [''Decoder'', ''Converter''] \<and>
   fst (Decode_pipeline runtime_accept uplink_example [5] 1 []) = (Some fields_a5, True, None) \<and>
   map call_name (snd (Decode_pipeline runtime_accept uplink_example [5] 1 [])) =
     [''Decoder'', ''Converter'', ''Validator'']"
proof -
  let ?f1 = "snd (Decode runtime_failing_decoder uplink_example [5] 1 [])"
  let ?c1 = "snd (Decode runtime_array_converter uplink_example [5] 1 [])"
  let ?c2 = "snd (Convert runtime_array_converter uplink_example (Some fields_a5) 1 ?c1)"
  let ?a1 = "snd (Decode runtime_accept uplink_example [5] 1 [])"
  let ?a2 = "snd (Convert runtime_accept uplink_example (Some fields_a5) 1 ?a1)"
  let ?a3 = "snd (Validate runtime_accept uplink_example (Some fields_a5) 1 ?a2)"
  have 1: "fst (Decode_pipeline runtime_failing_decoder uplink_example [5] 1 []) =
      (None, False, Some (ErrExternal ''timeout''))"
    using C7_short_circuit [where rt = runtime_failing_decoder and f = uplink_example
        and payload = "[5]" and port = 1 and tr = "[]" and d = None
        and e = "ErrExternal ''timeout''" and ?tr1.0 = ?f1]
      ex_Decode(5)
    by simp
  have 2: "fst (Decode_pipeline runtime_array_converter uplink_example [5] 1 []) =
      (None, False, Some (InvalidReturnType ''Converter'' ''does not return an object''))"
    using C7_short_circuit [where rt = runtime_array_converter and f = uplink_example
        and payload = "[5]" and port = 1 and tr = "[]" and d = "Some fields_a5" and c = None
        and e = "InvalidReturnType ''Converter'' ''does not return an object''"
        and ?tr1.0 = ?c1 and ?tr2.0 = ?c2]
      ex_Decode(3) ex_Convert(4) [of ?c1]
    by simp
  have 3: "fst (Decode_pipeline runtime_accept uplink_example [5] 1 []) =
      (Some fields_a5, True, None)"
    using C7_short_circuit [where rt = runtime_accept and f = uplink_example
        and payload = "[5]" and port = 1 and tr = "[]" and d = "Some fields_a5"
        and c = "Some fields_a5" and b = True and err = None
        and ?tr1.0 = ?a1 and ?tr2.0 = ?a2 and ?tr3.0 = ?a3]
      ex_Decode(4) ex_Convert(3) [of ?a1] ex_Validate(3) [of ?a2]
    by (simp add: prod_eq_iff)
  have 4: "map call_name (snd (Decode_pipeline runtime_accept uplink_example [5] 1 [])) =
     [''Decoder'', ''Converter'', ''Validator'']"
    using C7_short_circuit [where rt = runtime_accept and f = uplink_example and payload = "[5]"
        and port = 1 and tr = "[]" and d = "Some fields_a5" and c = "Some fields_a5"
        and ?tr1.0 = ?a1 and ?tr2.0 = ?a2]
      ex_Decode(4) ex_Convert(3) [of ?a1]
    by (simp add: uplink_example_def)
  from 1 2 3 4 show ?thesis by (simp add: ex_pipeline)
qed

text \<open>
  Claim C1: whenever a stage of the uplink pipeline returns an error, the pipeline answers
  \<open>isValid = false\<close> and a nil field map; a Validator that answers a string gives
  \<open>(nil, false, InvalidReturnType)\<close>.

  The pipeline returns \<^verbatim>\<open>converted, valid, err\<close> after \<open>Validate\<close>, whatever \<open>err\<close>
  is, while its two earlier error paths return \<^verbatim>\<open>nil, false, err\<close>. The run below has
  a Decoder that answers an object and a Validator that answers a string: the error is
  the one the claim names, and the field map returned with it is the converted one, not
  nil.
\<close>

theorem C1_validator_failure_keeps_fields:
  "fst (Decode_pipeline runtime_string_validator uplink_example [5] 1 []) =
     (Some fields_a5, False, Some (InvalidReturnType ''Validator'' ''does not return a boolean'')) \<and>
   fst (Decode_pipeline runtime_string_validator uplink_example [5] 1 []) \<noteq>
     (None, False, Some (InvalidReturnType ''Validator'' ''does not return a boolean''))"
  by (simp add: ex_pipeline(6))

subsection \<open>The downlink pipeline\<close>

text \<open>
  Claim C9: with an empty Encoder script, \<open>Encode\<close> returns the missing-Encoder error
  for every field map, the nil and the empty one included, and runs no script.
\<close>

theorem C9_missing_encoder:
  assumes "Encoder f = []"
  shows "Encode rt ovf f payload port tr = (Returns (None, Some MissingEncoder), tr)"
  using assms by (simp add: Encode_def MissingEncoder_def)

theorem C9_missing_encoder_witness:
  "Encode (by_name []) amd64_ovf downlink_empty None 1 [] =
     (Returns (None, Some MissingEncoder), []) \<and>
   Encode (by_name []) amd64_ovf downlink_empty (Some []) 1 [] =
     (Returns (None, Some MissingEncoder), [])"
  using C9_missing_encoder [of downlink_empty "by_name []" amd64_ovf None 1 "[]"]
    C9_missing_encoder [of downlink_empty "by_name []" amd64_ovf "Some []" 1 "[]"]
  by (simp add: downlink_empty_def)

text \<open>
  Claim C4: for every non-empty field map and port, the downlink pipeline with an empty
  Encoder script returns the missing-Encoder error, no bytes and \<open>ok = false\<close>, and runs
  no script (the trace is unchanged).
\<close>

theorem C4_missing_encoder_pipeline:
  assumes "Encoder f = []" and "payload = Some m" and "m \<noteq> []"
  shows "Encode_pipeline rt ovf f payload port tr = (Returns (None, False, Some MissingEncoder), tr)"
  using assms by (simp add: Encode_pipeline_def Encode_def MissingEncoder_def)

theorem C4_missing_encoder_pipeline_witness:
  "Encode_pipeline (by_name []) amd64_ovf downlink_empty (Some [(''a'', GByte 1)]) 1 [] =
     (Returns (None, False, Some MissingEncoder), [])"
  using C4_missing_encoder_pipeline [of downlink_empty "Some [(''a'', GByte 1)]" "[(''a'', GByte 1)]" "by_name []" amd64_ovf 1 "[]"]
  by (simp add: downlink_empty_def)

text \<open>
  Claim C10: whenever \<open>Encode\<close> returns an error its byte slice is nil, and whenever the
  downlink pipeline returns an error its byte slice is nil and \<open>ok\<close> is false.
\<close>

theorem C10_error_without_bytes:
  "(fst (Encode rt ovf f payload port tr) = Returns (bs, Some e) \<longrightarrow> bs = None) \<and>
   (fst (Encode_pipeline rt ovf f payload port tr) = Returns (bs', ok, Some e') \<longrightarrow>
      bs' = None \<and> \<not> ok)"
proof -
  have 1: "bs = None" if "fst (Encode rt ovf f payload port tr) = Returns (bs, Some e)" for bs e
    using that
    by (auto simp: Encode_def Let_def split: if_splits prod.splits goval.splits
        dest: Encode_loop_error_nil)
  have 2: "bs' = None \<and> \<not> ok"
    if "fst (Encode_pipeline rt ovf f payload port tr) = Returns (bs', ok, Some e')"
    using that by (auto simp: Encode_pipeline_def split: prod.splits outcome.splits if_splits)
  from 1 2 show ?thesis by blast
qed

theorem C10_error_without_bytes_witness:
  "fst (Encode (runtime_encoder [GFloat64 (Finite 0 0), GFloat64 (Finite 3 (- 1))]) amd64_ovf
     downlink_example None 1 []) = Returns (None, Some NotIntegers) \<and>
   fst (Encode_pipeline (runtime_encoder [GFloat64 (Finite 0 0), GFloat64 (Finite 3 (- 1))])
     amd64_ovf downlink_example None 1 []) = Returns (None, False, Some NotIntegers)"
proof -
  let ?xs = "[GFloat64 (Finite 0 0), GFloat64 (Finite 3 (- 1))]"
  have "byte_ok (GFloat64 (Finite 0 0))" "has_fraction (GFloat64 (Finite 3 (- 1)))"
    by (simp_all add: byte_ok_def whole_number_def float_whole_def is_uint_def has_fraction_def
        fractional_def)
  then have "Encode_loop amd64_ovf ?xs 0 (replicate (length ?xs) 0) = (None, Some NotIntegers)"
    by (intro Encode_loop_first_error [where pre = "[GFloat64 (Finite 0 0)]" and post = "[]"]
        el_step_fraction) simp_all
  then have E: "fst (Encode (runtime_encoder ?xs) amd64_ovf downlink_example None 1 []) =
     Returns (None, Some NotIntegers)"
    using Encode_array [OF ex_encoder, where xs = ?xs and payload = None and port = 1
        and tr = "[]" and ovf = amd64_ovf]
    by simp
  then show ?thesis
    using C10_error_without_bytes [where rt = "runtime_encoder ?xs" and ovf = amd64_ovf and f = downlink_example
        and payload = None and port = 1 and tr = "[]" and bs = None and e = NotIntegers
        and bs' = None and ok = False and e' = NotIntegers]
    by (simp add: Encode_pipeline_fst)
qed

text \<open>
  Claim C2, as amended: the loop of \<open>Encode\<close> goes through the array in order, and the
  first element that is not turned into a byte decides the error. After elements that
  are whole numbers from 0 to 255 (of a type the switch lists),
  \<^item> a floating-point element with a fractional part gives the error
    "should return an Array of integer numbers";
  \<^item> a whole number outside 0 to 255 gives the out-of-range error, when its type is one
    the switch lists and, for a floating-point element, its value is an \<^verbatim>\<open>int64\<close>;
  \<^item> a whole floating-point element beyond the \<^verbatim>\<open>int64\<close> range gives the error
    "should return an Array of integer numbers", whatever the implementation-dependent
    conversion answers;
  and when every element is a whole number from 0 to 255 the result is the byte sequence
  of the same length with the elements' values in their order.
\<close>

theorem C2_byte_array_coercion:
  assumes enc: "Encoder f \<noteq> []"
    and run: "fst (RunCode rt ''Encoder'' (Encode_code f) (Encode_env payload port) timeOut
      (Logger f) tr) = (val, None)"
    and obj: "IsObject val" and exp: "Export val = (GSlice xs, None)"
  shows
    "(xs = pre @ el # post \<and> list_all byte_ok pre \<and> has_fraction el \<longrightarrow>
        fst (Encode rt ovf f payload port tr) = Returns (None, Some NotIntegers)) \<and>
     (xs = pre @ el # post \<and> list_all byte_ok pre \<and> whole_number el = Some v \<and>
      (v < 0 \<or> 255 < v) \<and> \<not> is_uint el \<and>
      (is_float el \<longrightarrow> representable el \<and> - (2 ^ 63) \<le> v \<and> v < 2 ^ 63) \<longrightarrow>
        fst (Encode rt ovf f payload port tr) = Returns (None, Some OutOfRange)) \<and>
     (xs = pre @ el # post \<and> list_all byte_ok pre \<and> is_float el \<and> whole_number el = Some v \<and>
      (v < - (2 ^ 63) \<or> 2 ^ 63 < v) \<longrightarrow>
        fst (Encode rt ovf f payload port tr) = Returns (None, Some NotIntegers)) \<and>
     (list_all byte_ok xs \<longrightarrow>
        fst (Encode rt ovf f payload port tr) = Returns (Some (map byte_of xs), None) \<and>
        length (map byte_of xs) = length xs \<and>
        (\<forall>i < length xs. whole_number (xs ! i) = Some (uint (map byte_of xs ! i))))"
proof -
  note E = Encode_array [OF enc run obj exp, of ovf]
  have 1: "fst (Encode rt ovf f payload port tr) = Returns (None, Some NotIntegers)"
    if "xs = pre @ el # post" "list_all byte_ok pre" "has_fraction el"
    unfolding E using that by (simp add: Encode_loop_first_error el_step_fraction)
  have 2: "fst (Encode rt ovf f payload port tr) = Returns (None, Some OutOfRange)"
    if a: "xs = pre @ el # post" "list_all byte_ok pre" and w: "whole_number el = Some v"
      and r: "v < 0 \<or> 255 < v" and u: "\<not> is_uint el"
      and fl: "is_float el \<longrightarrow> representable el \<and> - (2 ^ 63) \<le> v \<and> v < 2 ^ 63"
  proof -
    have "el_step ovf el = (if v < 0 \<or> 255 < v then Inl OutOfRange else Inr (word_of_int v))"
      using w u fl by (intro el_step_whole) auto
    with r have "el_step ovf el = Inl OutOfRange" by simp
    with a show ?thesis unfolding E by (simp add: Encode_loop_first_error)
  qed
  have 3: "fst (Encode rt ovf f payload port tr) = Returns (None, Some NotIntegers)"
    if "xs = pre @ el # post" "list_all byte_ok pre" "is_float el" "whole_number el = Some v"
      "v < - (2 ^ 63) \<or> 2 ^ 63 < v"
    unfolding E using that by (simp add: Encode_loop_first_error el_step_beyond)
  have 4: "fst (Encode rt ovf f payload port tr) = Returns (Some (map byte_of xs), None) \<and>
        length (map byte_of xs) = length xs \<and>
        (\<forall>i < length xs. whole_number (xs ! i) = Some (uint (map byte_of xs ! i)))"
    if "list_all byte_ok xs"
    unfolding E using that byte_ok_step by (auto simp: Encode_loop_bytes list_all_length)
  from 1 2 3 4 show ?thesis by blast
qed

text \<open>
  The examples of the specification: \<open>[1.5]\<close>, \<open>[256]\<close>, \<open>[-1]\<close>, \<open>[0, 255]\<close>, and an
  array whose second element is \<open>2 ^ 70\<close>.
\<close>

theorem C2_byte_array_coercion_witness:
  "fst (Encode (runtime_encoder [GFloat64 (Finite 3 (- 1))]) amd64_ovf downlink_example None 1 []) =
     Returns (None, Some NotIntegers) \<and>
   fst (Encode (runtime_encoder [GFloat64 (Finite 256 0)]) amd64_ovf downlink_example None 1 []) =
     Returns (None, Some OutOfRange) \<and>
   fst (Encode (runtime_encoder [GFloat64 (Finite (- 1) 0)]) amd64_ovf downlink_example None 1 []) =
     Returns (None, Some OutOfRange) \<and>
   fst (Encode (runtime_encoder [GByte 7, GFloat64 (Finite 1 70)]) amd64_ovf downlink_example
     None 1 []) = Returns (None, Some NotIntegers) \<and>
   fst (Encode (runtime_encoder [GFloat64 (Finite 0 0), GFloat64 (Finite 255 0)]) amd64_ovf
     downlink_example None 1 []) = Returns (Some [0, 255], None)"
proof -
  have 1: "fst (Encode (runtime_encoder [GFloat64 (Finite 3 (- 1))]) amd64_ovf downlink_example
      None 1 []) = Returns (None, Some NotIntegers)"
    using C2_byte_array_coercion [OF ex_encoder, where xs = "[GFloat64 (Finite 3 (- 1))]" and pre = "[]"
        and el = "GFloat64 (Finite 3 (- 1))" and post = "[]" and ovf = amd64_ovf
        and payload = None and port = 1 and tr = "[]"]
    by (simp add: has_fraction_def fractional_def)
  have 2: "fst (Encode (runtime_encoder [GFloat64 (Finite 256 0)]) amd64_ovf downlink_example
      None 1 []) = Returns (None, Some OutOfRange)"
    using C2_byte_array_coercion [OF ex_encoder, where xs = "[GFloat64 (Finite 256 0)]" and pre = "[]"
        and el = "GFloat64 (Finite 256 0)" and post = "[]" and ovf = amd64_ovf
        and payload = None and port = 1 and tr = "[]" and v = 256]
    by (simp add: whole_number_def float_whole_def is_uint_def is_float_def representable_def
        float_bits_def)
  have 3: "fst (Encode (runtime_encoder [GFloat64 (Finite (- 1) 0)]) amd64_ovf downlink_example
      None 1 []) = Returns (None, Some OutOfRange)"
    using C2_byte_array_coercion [OF ex_encoder, where xs = "[GFloat64 (Finite (- 1) 0)]" and pre = "[]"
        and el = "GFloat64 (Finite (- 1) 0)" and post = "[]" and ovf = amd64_ovf
        and payload = None and port = 1 and tr = "[]" and v = "- 1"]
    by (simp add: whole_number_def float_whole_def is_uint_def is_float_def representable_def
        float_bits_def)
  have 4: "fst (Encode (runtime_encoder [GByte 7, GFloat64 (Finite 1 70)]) amd64_ovf
      downlink_example None 1 []) = Returns (None, Some NotIntegers)"
    using C2_byte_array_coercion [OF ex_encoder, where xs = "[GByte 7, GFloat64 (Finite 1 70)]" and pre = "[GByte 7]"
        and el = "GFloat64 (Finite 1 70)" and post = "[]" and ovf = amd64_ovf
        and payload = None and port = 1 and tr = "[]" and v = "2 ^ 70"]
    by (simp add: whole_number_def float_whole_def is_uint_def is_float_def byte_ok_def)
  have 5: "fst (Encode (runtime_encoder [GFloat64 (Finite 0 0), GFloat64 (Finite 255 0)]) amd64_ovf
     downlink_example None 1 []) = Returns (Some [0, 255], None)"
    using C2_byte_array_coercion [OF ex_encoder, where xs = "[GFloat64 (Finite 0 0), GFloat64 (Finite 255 0)]"
        and ovf = amd64_ovf and payload = None and port = 1 and tr = "[]"]
    by (simp add: whole_number_def float_whole_def is_uint_def byte_ok_def byte_of_def)
  from 1 2 3 4 5 show ?thesis by simp
qed

text \<open>
  The claim as stated fails for the array \<open>[2 ^ 64]\<close>: its element is a whole number
  outside 0 to 255, and the error is not the out-of-range one.
\<close>

theorem C2_whole_float_beyond_int64_counterexample:
  "whole_number (GFloat64 (Finite 1 64)) = Some 18446744073709551616 \<and>
   representable (GFloat64 (Finite 1 64)) \<and>
   fst (Encode (runtime_encoder [GFloat64 (Finite 1 64)]) amd64_ovf downlink_example None 1 []) =
     Returns (None, Some NotIntegers) \<and>
   fst (Encode (runtime_encoder [GFloat64 (Finite 1 64)]) amd64_ovf downlink_example None 1 []) \<noteq>
     Returns (None, Some OutOfRange)"
proof -
  have s: "sint (0x8000000000000000 :: 64 word) = - 9223372036854775808" by simp
  have b: "bitlen 9223372036854775808 = 64" by code_simp
  have "el_int64 amd64_ovf (GFloat64 (Finite 1 64)) = Inl NotIntegers"
    by (simp add: el_int64_def float_to_int64_def float_trunc_def amd64_ovf_def
        int64_to_float_def s b float_eq_def NotIntegers_def InvalidReturnType_def Let_def)
  then have "Encode_loop amd64_ovf [GFloat64 (Finite 1 64)] 0 [0] = (None, Some NotIntegers)"
    by (simp add: Encode_loop.simps)
  then have "fst (Encode (runtime_encoder [GFloat64 (Finite 1 64)]) amd64_ovf downlink_example
      None 1 []) = Returns (None, Some NotIntegers)"
    by (simp add: Encode_def downlink_example_def runtime_encoder_def by_name_def RunCode_def
        array_value_def)
  then show ?thesis
    by (simp add: whole_number_def float_whole_def representable_def float_bits_def
        NotIntegers_def OutOfRange_def InvalidReturnType_def NewErrInvalidArgument_def)
qed

subsection \<open>The timeout\<close>

text \<open>
  Claim C8: every run of a script by one of the four transforms, and so by the two
  pipelines, is given the timeout \<open>timeOut\<close>, which is 100 milliseconds.
\<close>

theorem C8_fixed_timeout:
  "timeOut = 100 * Millisecond \<and> timeOut = 100000000 \<and>
   (\<forall>c \<in> set (drop (length tr) (snd (Decode rt u payload port tr))). call_timeout c = timeOut) \<and>
   (\<forall>c \<in> set (drop (length tr) (snd (Convert rt u flds port tr))). call_timeout c = timeOut) \<and>
   (\<forall>c \<in> set (drop (length tr) (snd (Validate rt u flds port tr))). call_timeout c = timeOut) \<and>
   (\<forall>c \<in> set (drop (length tr) (snd (Encode rt ovf d flds port tr))). call_timeout c = timeOut) \<and>
   (\<forall>c \<in> set (drop (length tr) (snd (Decode_pipeline rt u payload port tr))).
      call_timeout c = timeOut) \<and>
   (\<forall>c \<in> set (drop (length tr) (snd (Encode_pipeline rt ovf d flds port tr))).
      call_timeout c = timeOut)"
proof -
  have 1: "\<forall>c \<in> set (drop (length tr) (snd (Decode rt u payload port tr))). call_timeout c = timeOut"
    using Decode_calls [of rt u payload port tr] by auto
  have 2: "\<forall>c \<in> set (drop (length tr) (snd (Convert rt u flds port tr))). call_timeout c = timeOut"
    using Convert_calls [of rt u flds port tr] by auto
  have 3: "\<forall>c \<in> set (drop (length tr) (snd (Validate rt u flds port tr))). call_timeout c = timeOut"
    using Validate_calls [of rt u flds port tr] by auto
  have 4: "\<forall>c \<in> set (drop (length tr) (snd (Encode rt ovf d flds port tr))). call_timeout c = timeOut"
    using Encode_calls [of rt ovf d flds port tr] by auto
  have 5: "\<forall>c \<in> set (drop (length tr) (snd (Decode_pipeline rt u payload port tr))).
      call_timeout c = timeOut"
    using Decode_pipeline_calls [of rt u payload port tr] by auto
  have 6: "timeOut = 100 * Millisecond" "timeOut = 100000000"
    by (simp_all add: timeOut_def Millisecond_def)
  from 1 2 3 4 5 6 show ?thesis
    unfolding Encode_pipeline_trace by blast
qed

theorem C8_fixed_timeout_witness:
  "map call_timeout (snd (Decode_pipeline runtime_accept uplink_example [5] 1 [])) =
     [100000000, 100000000, 100000000] \<and>
   map call_timeout (snd (Encode_pipeline (runtime_encoder [GByte 1]) amd64_ovf downlink_example
     None 1 [])) = [100000000]"
proof -
  have 1: "length (snd (Decode_pipeline runtime_accept uplink_example [5] 1 [])) = 3"
    by (simp add: Decode_pipeline_def Decode_def Convert_def Validate_def ex_defs)
  have 2: "length (snd (Encode_pipeline (runtime_encoder [GByte 1]) amd64_ovf downlink_example
     None 1 [])) = 1"
    by (simp add: Encode_pipeline_trace Encode_def downlink_example_def runtime_encoder_def
        by_name_def RunCode_def array_value_def)
  note W = C8_fixed_timeout [where rt = runtime_accept and u = uplink_example and payload = "[5]" and port = 1
      and tr = "[]" and ovf = amd64_ovf and d = downlink_example and flds = None]
    C8_fixed_timeout [where rt = "runtime_encoder [GByte 1]" and u = uplink_example and payload = "[5]"
      and port = 1 and tr = "[]" and ovf = amd64_ovf and d = downlink_example and flds = None]
  have 3: "map call_timeout tr = replicate (length tr) 100000000"
    if "\<forall>c \<in> set (drop (length ([] :: unit call list)) tr). call_timeout c = timeOut"
    for tr :: "unit call list"
    using that W(1) by (simp add: map_replicate_const [symmetric])
  from W have "map call_timeout (snd (Decode_pipeline runtime_accept uplink_example [5] 1 [])) =
      replicate (length (snd (Decode_pipeline runtime_accept uplink_example [5] 1 []))) 100000000"
    by (intro 3) blast
  moreover from W have "map call_timeout (snd (Encode_pipeline (runtime_encoder [GByte 1])
      amd64_ovf downlink_example None 1 [])) =
      replicate (length (snd (Encode_pipeline (runtime_encoder [GByte 1])
      amd64_ovf downlink_example None 1 []))) 100000000"
    by (intro 3) blast
  ultimately show ?thesis by (simp add: 1 2 numeral_3_eq_3)
qed

end
